theory Spec2Isabelle
  imports Main
begin

section \<open>MDC text field: the foundation and its adapter\<close>

text \<open>
  A shallow embedding of \<^verbatim>\<open>packages/mdc-textfield/foundation.js\<close> (the class
  \<^verbatim>\<open>MDCTextfieldFoundation\<close>) and of the adapter that
  \<^verbatim>\<open>packages/mdc-textfield/index.js\<close> hands to it. The foundation never touches the
  DOM: every effect is a call of an adapter method or of a method of a child foundation
  (input, label). A method of the foundation is therefore a function on a run state that
  holds the foundation object, the host's state (the "world" the adapter acts on) and the
  sequence of calls made so far; a call of something that is \<^verbatim>\<open>undefined\<close> is the
  error \<open>TypeError\<close>.
\<close>

subsection \<open>Constants\<close>

text \<open>
  Modelled from the spec: \<^verbatim>\<open>packages/mdc-textfield/constants.js\<close> is missing (the
  constants file at hand is the one of mdc-select). The spec lists the class-name
  constants (upgraded, focused, disabled, invalid, bottom-line-active,
  helptext-persistent, helptext-validation-message, text-field-icon) and the string
  constants (an aria-hidden attribute name, a role attribute name, an icon-action event
  name) without their values, so each constant is kept by its key; distinct keys stand
  for distinct strings.
\<close>

datatype css_class =
  UPGRADED | FOCUSED | DISABLED | INVALID | BOTTOM_LINE_ACTIVE
  | HELPTEXT_PERSISTENT | HELPTEXT_VALIDATION_MSG | TEXT_FIELD_ICON

datatype strings_key = ARIA_HIDDEN | ROLE | ICON_EVENT

text \<open>
  Modelled from the spec: \<^verbatim>\<open>MDCTextfieldInputFoundation.strings\<close>
  (\<^verbatim>\<open>input/foundation.js\<close> is missing); the spec names the three input-level
  interactions focus, blur and pressed (pointer-down).
\<close>

datatype input_event = FOCUS_EVENT | BLUR_EVENT | PRESSED_EVENT

subsection \<open>Events, handlers, calls\<close>

text \<open>
  The fields of a DOM event that the foundation reads. A field the event does not have is
  \<open>None\<close> (\<^verbatim>\<open>undefined\<close>). Coordinates are taken as whole pixels.
\<close>

record target =
  classList :: "css_class list"
  rectLeft :: int

record event =
  evt_type :: string
  evt_target :: target
  evt_key :: "string option"
  evt_keyCode :: "int option"
  evt_propertyName :: "string option"
  evt_clientX :: int
  evt_clientY :: int

text \<open>
  The five closures the constructor stores. Each is created once, so a value of this type
  is the identity of a closure: two handlers are the same listener iff they are equal.
\<close>

datatype handler =
  InputFocusHandler | InputBlurHandler | SetPointerXOffset
  | TextFieldInteractionHandler | TransitionEndHandler

text \<open>One entry of the call sequence: an adapter method or a child foundation's method,
  with its arguments.\<close>

datatype call =
  AddClass css_class
  | RemoveClass css_class
  | SetIconAttr string string
  | EventTargetHasClass target css_class
  | RegisterTextFieldInteractionHandler string handler
  | DeregisterTextFieldInteractionHandler string handler
  | NotifyIconAction
  | AddClassToBottomLine css_class
  | RemoveClassFromBottomLine css_class
  | HelptextHasClass css_class
  | RegisterTransitionEndHandler handler
  | DeregisterTransitionEndHandler handler
  | SetBottomLineAttr string string
  | SetHelptextAttr strings_key string
  | RemoveHelptextAttr strings_key
  | GetInputFoundation
  | GetLabelFoundation
  | RegisterInputInteractionHandler input_event handler
  | DeregisterInputInteractionHandler input_event handler
  | Input_getValue
  | Input_isBadInput
  | Input_checkValidity
  | Input_setDisabled bool
  | Label_floatLabel
  | Label_deactivateFocus bool
  | Label_changeValidity bool

datatype error = TypeError

subsection \<open>Child foundations and the adapter\<close>

text \<open>
  Modelled from the spec: the input and label foundations
  (\<^verbatim>\<open>input/foundation.js\<close>, \<^verbatim>\<open>label/foundation.js\<close>) are missing. The spec gives
  their capability surface: \<^verbatim>\<open>getValue()\<close>, \<^verbatim>\<open>isBadInput()\<close>,
  \<^verbatim>\<open>checkValidity()\<close>, \<^verbatim>\<open>setDisabled(bool)\<close>, \<^verbatim>\<open>isDisabled()\<close>, and the label's
  \<^verbatim>\<open>floatLabel()\<close>, \<^verbatim>\<open>deactivateFocus(bool)\<close>, \<^verbatim>\<open>changeValidity(bool)\<close>. A method
  reads or updates the world. \<open>input_disabled\<close> is what reading the property
  \<^verbatim>\<open>disabled\<close> of the object yields (\<open>None\<close> when it has no such property): the
  foundation reads that property, not \<^verbatim>\<open>isDisabled()\<close>.
\<close>

record 'w input_foundation =
  input_getValue :: "'w \<Rightarrow> string"
  input_isBadInput :: "'w \<Rightarrow> bool"
  input_checkValidity :: "'w \<Rightarrow> bool"
  input_setDisabled :: "bool \<Rightarrow> 'w \<Rightarrow> 'w"
  input_isDisabled :: "'w \<Rightarrow> bool"
  input_disabled :: "'w \<Rightarrow> bool option"

record 'w label_foundation =
  label_floatLabel :: "'w \<Rightarrow> 'w"
  label_deactivateFocus :: "bool \<Rightarrow> 'w \<Rightarrow> 'w"
  label_changeValidity :: "bool \<Rightarrow> 'w \<Rightarrow> 'w"

text \<open>
  The adapter is a JavaScript object: a method it does not have is \<open>None\<close>. The two
  accessors return a reference or \<^verbatim>\<open>undefined\<close> (the inner \<open>None\<close>).
  \<^verbatim>\<open>getBottomLineFoundation\<close> and \<^verbatim>\<open>getHelpTextFoundation\<close> of
  \<^verbatim>\<open>adapter.js\<close> are never called by the foundation and are left out.
\<close>

record 'w adapter =
  addClass :: "(css_class \<Rightarrow> 'w \<Rightarrow> 'w) option"
  removeClass :: "(css_class \<Rightarrow> 'w \<Rightarrow> 'w) option"
  setIconAttr :: "(string \<Rightarrow> string \<Rightarrow> 'w \<Rightarrow> 'w) option"
  eventTargetHasClass :: "(target \<Rightarrow> css_class \<Rightarrow> 'w \<Rightarrow> bool) option"
  registerTextFieldInteractionHandler :: "(string \<Rightarrow> handler \<Rightarrow> 'w \<Rightarrow> 'w) option"
  deregisterTextFieldInteractionHandler :: "(string \<Rightarrow> handler \<Rightarrow> 'w \<Rightarrow> 'w) option"
  notifyIconAction :: "('w \<Rightarrow> 'w) option"
  addClassToBottomLine :: "(css_class \<Rightarrow> 'w \<Rightarrow> 'w) option"
  removeClassFromBottomLine :: "(css_class \<Rightarrow> 'w \<Rightarrow> 'w) option"
  addClassToHelptext :: "(css_class \<Rightarrow> 'w \<Rightarrow> 'w) option"
  removeClassFromHelptext :: "(css_class \<Rightarrow> 'w \<Rightarrow> 'w) option"
  helptextHasClass :: "(css_class \<Rightarrow> 'w \<Rightarrow> bool) option"
  registerTransitionEndHandler :: "(handler \<Rightarrow> 'w \<Rightarrow> 'w) option"
  deregisterTransitionEndHandler :: "(handler \<Rightarrow> 'w \<Rightarrow> 'w) option"
  setBottomLineAttr :: "(string \<Rightarrow> string \<Rightarrow> 'w \<Rightarrow> 'w) option"
  setHelptextAttr :: "(strings_key \<Rightarrow> string \<Rightarrow> 'w \<Rightarrow> 'w) option"
  removeHelptextAttr :: "(strings_key \<Rightarrow> 'w \<Rightarrow> 'w) option"
  getInputFoundation :: "'w input_foundation option option"
  getLabelFoundation :: "'w label_foundation option option"
  registerInputInteractionHandler :: "(input_event \<Rightarrow> handler \<Rightarrow> 'w \<Rightarrow> 'w) option"
  deregisterInputInteractionHandler :: "(input_event \<Rightarrow> handler \<Rightarrow> 'w \<Rightarrow> 'w) option"

text \<open>\<^verbatim>\<open>{}\<close>, the constructor's default argument.\<close>

definition emptyAdapter :: "'w adapter" where
  "emptyAdapter = \<lparr>
     addClass = None, removeClass = None, setIconAttr = None, eventTargetHasClass = None,
     registerTextFieldInteractionHandler = None, deregisterTextFieldInteractionHandler = None,
     notifyIconAction = None, addClassToBottomLine = None, removeClassFromBottomLine = None,
     addClassToHelptext = None, removeClassFromHelptext = None, helptextHasClass = None,
     registerTransitionEndHandler = None, deregisterTransitionEndHandler = None,
     setBottomLineAttr = None, setHelptextAttr = None, removeHelptextAttr = None,
     getInputFoundation = None, getLabelFoundation = None,
     registerInputInteractionHandler = None, deregisterInputInteractionHandler = None \<rparr>"

text \<open>
  \<^verbatim>\<open>static get defaultAdapter()\<close>: nineteen methods that do nothing. A method with an
  empty body returns \<^verbatim>\<open>undefined\<close>: falsy for \<^verbatim>\<open>eventTargetHasClass\<close>, and no
  object at all for the two accessors. \<^verbatim>\<open>registerInputInteractionHandler\<close> and
  \<^verbatim>\<open>deregisterInputInteractionHandler\<close> are not among them.
\<close>

definition defaultAdapter :: "'w adapter" where
  "defaultAdapter = \<lparr>
     addClass = Some (\<lambda>_ w. w),
     removeClass = Some (\<lambda>_ w. w),
     setIconAttr = Some (\<lambda>_ _ w. w),
     eventTargetHasClass = Some (\<lambda>_ _ _. False),
     registerTextFieldInteractionHandler = Some (\<lambda>_ _ w. w),
     deregisterTextFieldInteractionHandler = Some (\<lambda>_ _ w. w),
     notifyIconAction = Some (\<lambda>w. w),
     addClassToBottomLine = Some (\<lambda>_ w. w),
     removeClassFromBottomLine = Some (\<lambda>_ w. w),
     addClassToHelptext = Some (\<lambda>_ w. w),
     removeClassFromHelptext = Some (\<lambda>_ w. w),
     helptextHasClass = Some (\<lambda>_ _. False),
     registerTransitionEndHandler = Some (\<lambda>_ w. w),
     deregisterTransitionEndHandler = Some (\<lambda>_ w. w),
     setBottomLineAttr = Some (\<lambda>_ _ w. w),
     setHelptextAttr = Some (\<lambda>_ _ w. w),
     removeHelptextAttr = Some (\<lambda>_ w. w),
     getInputFoundation = Some None,
     getLabelFoundation = Some None,
     registerInputInteractionHandler = None,
     deregisterInputInteractionHandler = None \<rparr>"

text \<open>\<^verbatim>\<open>Object.assign(d, a)\<close>: every property \<open>a\<close> has replaces the one of \<open>d\<close>.\<close>

definition over :: "'a option \<Rightarrow> 'a option \<Rightarrow> 'a option" where
  "over d a = (case a of None \<Rightarrow> d | Some f \<Rightarrow> Some f)"

definition assign :: "'w adapter \<Rightarrow> 'w adapter \<Rightarrow> 'w adapter" where
  "assign d a = \<lparr>
     addClass = over (addClass d) (addClass a),
     removeClass = over (removeClass d) (removeClass a),
     setIconAttr = over (setIconAttr d) (setIconAttr a),
     eventTargetHasClass = over (eventTargetHasClass d) (eventTargetHasClass a),
     registerTextFieldInteractionHandler =
       over (registerTextFieldInteractionHandler d) (registerTextFieldInteractionHandler a),
     deregisterTextFieldInteractionHandler =
       over (deregisterTextFieldInteractionHandler d) (deregisterTextFieldInteractionHandler a),
     notifyIconAction = over (notifyIconAction d) (notifyIconAction a),
     addClassToBottomLine = over (addClassToBottomLine d) (addClassToBottomLine a),
     removeClassFromBottomLine = over (removeClassFromBottomLine d) (removeClassFromBottomLine a),
     addClassToHelptext = over (addClassToHelptext d) (addClassToHelptext a),
     removeClassFromHelptext = over (removeClassFromHelptext d) (removeClassFromHelptext a),
     helptextHasClass = over (helptextHasClass d) (helptextHasClass a),
     registerTransitionEndHandler =
       over (registerTransitionEndHandler d) (registerTransitionEndHandler a),
     deregisterTransitionEndHandler =
       over (deregisterTransitionEndHandler d) (deregisterTransitionEndHandler a),
     setBottomLineAttr = over (setBottomLineAttr d) (setBottomLineAttr a),
     setHelptextAttr = over (setHelptextAttr d) (setHelptextAttr a),
     removeHelptextAttr = over (removeHelptextAttr d) (removeHelptextAttr a),
     getInputFoundation = over (getInputFoundation d) (getInputFoundation a),
     getLabelFoundation = over (getLabelFoundation d) (getLabelFoundation a),
     registerInputInteractionHandler =
       over (registerInputInteractionHandler d) (registerInputInteractionHandler a),
     deregisterInputInteractionHandler =
       over (deregisterInputInteractionHandler d) (deregisterInputInteractionHandler a) \<rparr>"

subsection \<open>The foundation object and the run state\<close>

text \<open>
  The fields of an \<^verbatim>\<open>MDCTextfieldFoundation\<close>. A private member \<^verbatim>\<open>name_\<close> of
  the source is written \<open>name_'\<close> here, since an Isabelle name cannot end in an
  underscore. \<^verbatim>\<open>receivedUserInput_\<close> and \<^verbatim>\<open>isFocused_\<close> are not assigned by the
  constructor: they are \<^verbatim>\<open>undefined\<close> (\<open>None\<close>) until a method assigns them. The
  base class \<^verbatim>\<open>MDCFoundation\<close> only stores the adapter.
\<close>

record 'w foundation =
  adapter_' :: "'w adapter"
  useCustomValidityChecking_' :: bool
  inputFocusHandler_' :: handler
  inputBlurHandler_' :: handler
  setPointerXOffset_' :: handler
  textFieldInteractionHandler_' :: handler
  transitionEndHandler_' :: handler
  receivedUserInput_' :: "bool option"
  isFocused_' :: "bool option"

text \<open>\<^verbatim>\<open>constructor(adapter = {})\<close>; \<open>None\<close> is the call without an argument.\<close>

definition constructor :: "'w adapter option \<Rightarrow> 'w foundation" where
  "constructor arg = \<lparr>
     adapter_' = assign defaultAdapter (case arg of None \<Rightarrow> emptyAdapter | Some a \<Rightarrow> a),
     useCustomValidityChecking_' = False,
     inputFocusHandler_' = InputFocusHandler,
     inputBlurHandler_' = InputBlurHandler,
     setPointerXOffset_' = SetPointerXOffset,
     textFieldInteractionHandler_' = TextFieldInteractionHandler,
     transitionEndHandler_' = TransitionEndHandler,
     receivedUserInput_' = None,
     isFocused_' = None \<rparr>"

record 'w run =
  fnd :: "'w foundation"
  world :: "'w"
  trace :: "call list"

type_synonym ('w, 'a) js = "'w run \<Rightarrow> error + ('a \<times> 'w run)"

definition ret :: "'a \<Rightarrow> ('w, 'a) js" where
  "ret x s = Inr (x, s)"

definition andThen :: "('w, 'a) js \<Rightarrow> ('a \<Rightarrow> ('w, 'b) js) \<Rightarrow> ('w, 'b) js" where
  "andThen m f s = (case m s of Inl e \<Rightarrow> Inl e | Inr (x, s') \<Rightarrow> f x s')"

definition thenDo :: "('w, unit) js \<Rightarrow> ('w, 'b) js \<Rightarrow> ('w, 'b) js" where
  "thenDo m n = andThen m (\<lambda>_. n)"

text \<open>Reading and assigning fields of \<^verbatim>\<open>this\<close>.\<close>

definition reading :: "('w foundation \<Rightarrow> ('w, 'a) js) \<Rightarrow> ('w, 'a) js" where
  "reading f s = f (fnd s) s"

definition assigning :: "('w foundation \<Rightarrow> 'w foundation) \<Rightarrow> ('w, unit) js" where
  "assigning f s = Inr ((), s\<lparr>fnd := f (fnd s)\<rparr>)"

text \<open>
  Calling a method that may be missing: a procedure updates the world, a query reads it.
  Either way the call is appended to the call sequence.
\<close>

definition proc :: "call \<Rightarrow> ('w \<Rightarrow> 'w) option \<Rightarrow> ('w, unit) js" where
  "proc c m s = (case m of
       None \<Rightarrow> Inl TypeError
     | Some f \<Rightarrow> Inr ((), s\<lparr>world := f (world s), trace := trace s @ [c]\<rparr>))"

definition query :: "call \<Rightarrow> ('w \<Rightarrow> 'r) option \<Rightarrow> ('w, 'r) js" where
  "query c m s = (case m of
       None \<Rightarrow> Inl TypeError
     | Some f \<Rightarrow> Inr (f (world s), s\<lparr>trace := trace s @ [c]\<rparr>))"

text \<open>\<^verbatim>\<open>this.adapter_.m(...)\<close> for a procedure and for a query of the adapter.\<close>

definition adapterProc ::
    "call \<Rightarrow> ('w adapter \<Rightarrow> ('w \<Rightarrow> 'w) option) \<Rightarrow> ('w, unit) js" where
  "adapterProc c sel = reading (\<lambda>t. proc c (sel (adapter_' t)))"

definition adapterQuery ::
    "call \<Rightarrow> ('w adapter \<Rightarrow> ('w \<Rightarrow> 'r) option) \<Rightarrow> ('w, 'r) js" where
  "adapterQuery c sel = reading (\<lambda>t. query c (sel (adapter_' t)))"

text \<open>
  \<^verbatim>\<open>this.adapter_.getInputFoundation()\<close> and \<^verbatim>\<open>getLabelFoundation()\<close>: the result
  may be \<^verbatim>\<open>undefined\<close>; using it then raises.
\<close>

definition callGetInputFoundation :: "('w, 'w input_foundation option) js" where
  "callGetInputFoundation =
     adapterQuery GetInputFoundation (\<lambda>a. map_option (\<lambda>r _. r) (getInputFoundation a))"

definition callGetLabelFoundation :: "('w, 'w label_foundation option) js" where
  "callGetLabelFoundation =
     adapterQuery GetLabelFoundation (\<lambda>a. map_option (\<lambda>r _. r) (getLabelFoundation a))"

text \<open>\<^verbatim>\<open>obj.m(...)\<close> on a reference that may be \<^verbatim>\<open>undefined\<close>.\<close>

definition onProc :: "'o option \<Rightarrow> call \<Rightarrow> ('o \<Rightarrow> 'w \<Rightarrow> 'w) \<Rightarrow> ('w, unit) js" where
  "onProc obj c m = proc c (map_option m obj)"

definition onQuery :: "'o option \<Rightarrow> call \<Rightarrow> ('o \<Rightarrow> 'w \<Rightarrow> 'r) \<Rightarrow> ('w, 'r) js" where
  "onQuery obj c m = query c (map_option m obj)"

text \<open>\<^verbatim>\<open>obj.p\<close>, a property read: raises on \<^verbatim>\<open>undefined\<close>, is no call.\<close>

definition onRead :: "'o option \<Rightarrow> ('o \<Rightarrow> 'w \<Rightarrow> 'r) \<Rightarrow> ('w, 'r) js" where
  "onRead obj p s = (case obj of None \<Rightarrow> Inl TypeError | Some ob \<Rightarrow> Inr (p ob (world s), s))"

text \<open>\<^verbatim>\<open>xs.forEach(f)\<close>.\<close>

fun forEach :: "'a list \<Rightarrow> ('a \<Rightarrow> ('w, unit) js) \<Rightarrow> ('w, unit) js" where
  "forEach [] f = ret ()"
| "forEach (x # xs) f = thenDo (f x) (forEach xs f)"

subsection \<open>Calls of the adapter's methods\<close>

definition callAddClass :: "css_class \<Rightarrow> ('w, unit) js" where
  "callAddClass c = adapterProc (AddClass c) (\<lambda>a. map_option (\<lambda>f. f c) (addClass a))"

definition callRemoveClass :: "css_class \<Rightarrow> ('w, unit) js" where
  "callRemoveClass c = adapterProc (RemoveClass c) (\<lambda>a. map_option (\<lambda>f. f c) (removeClass a))"

definition callSetIconAttr :: "string \<Rightarrow> string \<Rightarrow> ('w, unit) js" where
  "callSetIconAttr n v =
     adapterProc (SetIconAttr n v) (\<lambda>a. map_option (\<lambda>f. f n v) (setIconAttr a))"

definition callEventTargetHasClass :: "target \<Rightarrow> css_class \<Rightarrow> ('w, bool) js" where
  "callEventTargetHasClass t c =
     adapterQuery (EventTargetHasClass t c) (\<lambda>a. map_option (\<lambda>f. f t c) (eventTargetHasClass a))"

definition callRegisterTextFieldInteractionHandler :: "string \<Rightarrow> handler \<Rightarrow> ('w, unit) js" where
  "callRegisterTextFieldInteractionHandler e h =
     adapterProc (RegisterTextFieldInteractionHandler e h)
       (\<lambda>a. map_option (\<lambda>f. f e h) (registerTextFieldInteractionHandler a))"

definition callDeregisterTextFieldInteractionHandler :: "string \<Rightarrow> handler \<Rightarrow> ('w, unit) js" where
  "callDeregisterTextFieldInteractionHandler e h =
     adapterProc (DeregisterTextFieldInteractionHandler e h)
       (\<lambda>a. map_option (\<lambda>f. f e h) (deregisterTextFieldInteractionHandler a))"

definition callNotifyIconAction :: "('w, unit) js" where
  "callNotifyIconAction = adapterProc NotifyIconAction notifyIconAction"

definition callAddClassToBottomLine :: "css_class \<Rightarrow> ('w, unit) js" where
  "callAddClassToBottomLine c =
     adapterProc (AddClassToBottomLine c) (\<lambda>a. map_option (\<lambda>f. f c) (addClassToBottomLine a))"

definition callRemoveClassFromBottomLine :: "css_class \<Rightarrow> ('w, unit) js" where
  "callRemoveClassFromBottomLine c =
     adapterProc (RemoveClassFromBottomLine c)
       (\<lambda>a. map_option (\<lambda>f. f c) (removeClassFromBottomLine a))"

definition callHelptextHasClass :: "css_class \<Rightarrow> ('w, bool) js" where
  "callHelptextHasClass c =
     adapterQuery (HelptextHasClass c) (\<lambda>a. map_option (\<lambda>f. f c) (helptextHasClass a))"

definition callRegisterTransitionEndHandler :: "handler \<Rightarrow> ('w, unit) js" where
  "callRegisterTransitionEndHandler h =
     adapterProc (RegisterTransitionEndHandler h)
       (\<lambda>a. map_option (\<lambda>f. f h) (registerTransitionEndHandler a))"

definition callDeregisterTransitionEndHandler :: "handler \<Rightarrow> ('w, unit) js" where
  "callDeregisterTransitionEndHandler h =
     adapterProc (DeregisterTransitionEndHandler h)
       (\<lambda>a. map_option (\<lambda>f. f h) (deregisterTransitionEndHandler a))"

definition callSetBottomLineAttr :: "string \<Rightarrow> string \<Rightarrow> ('w, unit) js" where
  "callSetBottomLineAttr n v =
     adapterProc (SetBottomLineAttr n v) (\<lambda>a. map_option (\<lambda>f. f n v) (setBottomLineAttr a))"

definition callSetHelptextAttr :: "strings_key \<Rightarrow> string \<Rightarrow> ('w, unit) js" where
  "callSetHelptextAttr n v =
     adapterProc (SetHelptextAttr n v) (\<lambda>a. map_option (\<lambda>f. f n v) (setHelptextAttr a))"

definition callRemoveHelptextAttr :: "strings_key \<Rightarrow> ('w, unit) js" where
  "callRemoveHelptextAttr n =
     adapterProc (RemoveHelptextAttr n) (\<lambda>a. map_option (\<lambda>f. f n) (removeHelptextAttr a))"

definition callRegisterInputInteractionHandler :: "input_event \<Rightarrow> handler \<Rightarrow> ('w, unit) js" where
  "callRegisterInputInteractionHandler e h =
     adapterProc (RegisterInputInteractionHandler e h)
       (\<lambda>a. map_option (\<lambda>f. f e h) (registerInputInteractionHandler a))"

definition callDeregisterInputInteractionHandler :: "input_event \<Rightarrow> handler \<Rightarrow> ('w, unit) js" where
  "callDeregisterInputInteractionHandler e h =
     adapterProc (DeregisterInputInteractionHandler e h)
       (\<lambda>a. map_option (\<lambda>f. f e h) (deregisterInputInteractionHandler a))"

subsection \<open>The methods of the foundation\<close>

text \<open>JavaScript's truthiness of a field that holds a boolean or \<^verbatim>\<open>undefined\<close>.\<close>

definition truthy :: "bool option \<Rightarrow> bool" where
  "truthy v = (v = Some True)"

text \<open>\<^verbatim>\<open>init()\<close>\<close>

definition init :: "('w, unit) js" where
  "init =
     thenDo (callAddClass UPGRADED)
    (thenDo (andThen callGetInputFoundation (\<lambda>input.
             andThen (onQuery input Input_getValue input_getValue) (\<lambda>v.
             if v \<noteq> [] then
               andThen callGetLabelFoundation (\<lambda>label.
                 onProc label Label_floatLabel label_floatLabel)
             else ret ())))
    (thenDo (reading (\<lambda>t.
               callRegisterInputInteractionHandler FOCUS_EVENT (inputFocusHandler_' t)))
    (thenDo (reading (\<lambda>t.
               callRegisterInputInteractionHandler BLUR_EVENT (inputBlurHandler_' t)))
    (thenDo (reading (\<lambda>t.
               callRegisterInputInteractionHandler PRESSED_EVENT (setPointerXOffset_' t)))
    (thenDo (forEach [''click'', ''keydown''] (\<lambda>evtType. reading (\<lambda>t.
               callRegisterTextFieldInteractionHandler evtType (textFieldInteractionHandler_' t))))
            (reading (\<lambda>t.
               callRegisterTransitionEndHandler (transitionEndHandler_' t))))))))"

text \<open>\<^verbatim>\<open>destroy()\<close>\<close>

definition destroy :: "('w, unit) js" where
  "destroy =
     thenDo (callRemoveClass UPGRADED)
    (thenDo (reading (\<lambda>t.
               callDeregisterInputInteractionHandler FOCUS_EVENT (inputFocusHandler_' t)))
    (thenDo (reading (\<lambda>t.
               callDeregisterInputInteractionHandler BLUR_EVENT (inputBlurHandler_' t)))
    (thenDo (reading (\<lambda>t.
               callDeregisterInputInteractionHandler PRESSED_EVENT (setPointerXOffset_' t)))
    (thenDo (forEach [''click'', ''keydown''] (\<lambda>evtType. reading (\<lambda>t.
               callDeregisterTextFieldInteractionHandler evtType (textFieldInteractionHandler_' t))))
            (reading (\<lambda>t.
               callDeregisterTransitionEndHandler (transitionEndHandler_' t)))))))"

text \<open>\<^verbatim>\<open>handleTextFieldInteraction_(evt)\<close>\<close>

definition handleTextFieldInteraction_' :: "event \<Rightarrow> ('w, unit) js" where
  "handleTextFieldInteraction_' evt =
     andThen callGetInputFoundation (\<lambda>input.
     andThen (onRead input input_disabled) (\<lambda>disabled.
     if truthy disabled then ret ()
     else
       thenDo (assigning (\<lambda>t. t\<lparr>receivedUserInput_' := Some True\<rparr>))
      (andThen (callEventTargetHasClass (evt_target evt) TEXT_FIELD_ICON) (\<lambda>targetIsIcon.
       let eventTriggersNotification =
             (evt_type evt = ''click'' \<or> evt_key evt = Some ''Enter''
              \<or> evt_keyCode evt = Some 13)
       in if targetIsIcon \<and> eventTriggersNotification then callNotifyIconAction
          else ret ()))))"

text \<open>\<^verbatim>\<open>showHelptext_()\<close> and \<^verbatim>\<open>hideHelptext_()\<close>\<close>

definition showHelptext_' :: "('w, unit) js" where
  "showHelptext_' = callRemoveHelptextAttr ARIA_HIDDEN"

definition hideHelptext_' :: "('w, unit) js" where
  "hideHelptext_' = callSetHelptextAttr ARIA_HIDDEN ''true''"

text \<open>\<^verbatim>\<open>activateFocus_()\<close>\<close>

definition activateFocus_' :: "('w, unit) js" where
  "activateFocus_' =
     thenDo (callAddClass FOCUSED)
    (thenDo (callAddClassToBottomLine BOTTOM_LINE_ACTIVE)
    (thenDo (andThen callGetLabelFoundation (\<lambda>label.
               onProc label Label_floatLabel label_floatLabel))
            showHelptext_'))"

text \<open>Decimal digits of a whole number, for the template string below.\<close>

fun showNat :: "nat \<Rightarrow> string" where
  "showNat n =
     (if n < 10 then [''0123456789'' ! n]
      else showNat (n div 10) @ [''0123456789'' ! (n mod 10)])"

declare showNat.simps [simp del]

definition showInt :: "int \<Rightarrow> string" where
  "showInt i = (if i < 0 then CHR ''-'' # showNat (nat (- i)) else showNat (nat i))"

text \<open>
  \<^verbatim>\<open>setBottomLineTransformOrigin_(evt)\<close>. The source subtracts two JavaScript numbers
  and prints the difference in a template string. Here both coordinates are whole pixels:
  fractional pixels, and the exponent notation JavaScript uses for very large numbers, are
  outside the model.
\<close>

definition setBottomLineTransformOrigin_' :: "event \<Rightarrow> ('w, unit) js" where
  "setBottomLineTransformOrigin_' evt =
     (let targetClientRectLeft = rectLeft (evt_target evt);
          evtCoordsX = evt_clientX evt;
          normalizedX = evtCoordsX - targetClientRectLeft;
          attributeString = ''transform-origin: '' @ showInt normalizedX @ ''px center''
      in callSetBottomLineAttr ''style'' attributeString)"

text \<open>\<^verbatim>\<open>transitionEnd_(evt)\<close>\<close>

definition transitionEnd_' :: "event \<Rightarrow> ('w, unit) js" where
  "transitionEnd_' evt =
     reading (\<lambda>t.
       if evt_propertyName evt = Some ''opacity'' \<and> \<not> truthy (isFocused_' t)
       then callRemoveClassFromBottomLine BOTTOM_LINE_ACTIVE
       else ret ())"

text \<open>\<^verbatim>\<open>updateHelptext_(isValid)\<close>\<close>

definition updateHelptext_' :: "bool \<Rightarrow> ('w, unit) js" where
  "updateHelptext_' isValid =
     andThen (callHelptextHasClass HELPTEXT_PERSISTENT) (\<lambda>helptextIsPersistent.
     andThen (callHelptextHasClass HELPTEXT_VALIDATION_MSG) (\<lambda>helptextIsValidationMsg.
     let validationMsgNeedsDisplay = (helptextIsValidationMsg \<and> \<not> isValid) in
     thenDo (if validationMsgNeedsDisplay then callSetHelptextAttr ROLE ''alert''
             else callRemoveHelptextAttr ROLE)
            (if helptextIsPersistent \<or> validationMsgNeedsDisplay then ret ()
             else hideHelptext_')))"

text \<open>\<^verbatim>\<open>changeValidity_(isValid)\<close>\<close>

definition changeValidity_' :: "bool \<Rightarrow> ('w, unit) js" where
  "changeValidity_' isValid =
     thenDo (andThen callGetLabelFoundation (\<lambda>label.
               onProc label (Label_changeValidity isValid)
                 (\<lambda>l. label_changeValidity l isValid)))
    (thenDo (if isValid then callRemoveClass INVALID else callAddClass INVALID)
            (updateHelptext_' isValid))"

text \<open>\<^verbatim>\<open>deactivateFocus_()\<close>. The \<^verbatim>\<open>&&\<close> short-circuits: \<^verbatim>\<open>isBadInput()\<close> is only
  called when the value is empty.\<close>

definition deactivateFocus_' :: "('w, unit) js" where
  "deactivateFocus_' =
     andThen callGetInputFoundation (\<lambda>input.
     thenDo (callRemoveClass FOCUSED)
    (andThen callGetLabelFoundation (\<lambda>label.
     andThen (onQuery input Input_getValue input_getValue) (\<lambda>v.
     andThen (if v = [] then
                andThen (onQuery input Input_isBadInput input_isBadInput) (\<lambda>bad. ret (\<not> bad))
              else ret False) (\<lambda>hasValidInput.
     thenDo (onProc label (Label_deactivateFocus hasValidInput)
               (\<lambda>l. label_deactivateFocus l hasValidInput))
            (reading (\<lambda>t.
               if \<not> useCustomValidityChecking_' t then
                 andThen (onQuery input Input_checkValidity input_checkValidity)
                   changeValidity_'
               else ret ())))))))"

text \<open>\<^verbatim>\<open>setDisabled(disabled)\<close>\<close>

definition setDisabled :: "bool \<Rightarrow> ('w, unit) js" where
  "setDisabled disabled =
     thenDo (andThen callGetInputFoundation (\<lambda>input.
               onProc input (Input_setDisabled disabled)
                 (\<lambda>i. input_setDisabled i disabled)))
            (if disabled then
               thenDo (callAddClass DISABLED) (callSetIconAttr ''tabindex'' ''-1'')
             else
               thenDo (callRemoveClass DISABLED) (callSetIconAttr ''tabindex'' ''0''))"

text \<open>\<^verbatim>\<open>setValid(isValid)\<close>\<close>

definition setValid :: "bool \<Rightarrow> ('w, unit) js" where
  "setValid isValid =
     thenDo (assigning (\<lambda>t. t\<lparr>useCustomValidityChecking_' := True\<rparr>))
            (changeValidity_' isValid)"

text \<open>
  Calling one of the stored closures with an event, as the host does when it delivers the
  event to a registered listener.
\<close>

fun invoke :: "handler \<Rightarrow> event \<Rightarrow> ('w, unit) js" where
  "invoke InputFocusHandler evt = activateFocus_'"
| "invoke InputBlurHandler evt = deactivateFocus_'"
| "invoke SetPointerXOffset evt = setBottomLineTransformOrigin_' evt"
| "invoke TextFieldInteractionHandler evt = handleTextFieldInteraction_' evt"
| "invoke TransitionEndHandler evt = transitionEnd_' evt"

text \<open>What can happen to a foundation during its lifetime, and a sequence of it; the
  sequence stops at the first error, as an uncaught exception would.\<close>

datatype op =
  Init | Destroy | SetDisabled bool | SetValid bool | Fire handler event

fun perform :: "op \<Rightarrow> ('w, unit) js" where
  "perform Init = init"
| "perform Destroy = destroy"
| "perform (SetDisabled b) = setDisabled b"
| "perform (SetValid b) = setValid b"
| "perform (Fire h evt) = invoke h evt"

fun performAll :: "op list \<Rightarrow> ('w, unit) js" where
  "performAll [] = ret ()"
| "performAll (x # xs) = thenDo (perform x) (performAll xs)"

subsection \<open>The component of \<^verbatim>\<open>index.js\<close> and its adapter\<close>

text \<open>
  The state an \<^verbatim>\<open>MDCTextfield\<close> holds and reaches through its adapter: the class list
  and the listeners of the root element, the input component (its listeners and what its
  foundation answers), the icon element (\<open>None\<close> when \<^verbatim>\<open>this.icon_\<close> is null) with
  its attributes, and the events emitted so far.
\<close>

record textfield =
  root_classList :: "css_class list"
  root_listeners :: "(string \<times> handler) list"
  input_listeners :: "(input_event \<times> handler) list"
  input_value :: string
  input_badInput :: bool
  input_validity :: bool
  input_isDisabledState :: bool
  input_disabledProperty :: "bool option"
  icon_attributes :: "(string \<rightharpoonup> string) option"
  emitted :: "strings_key list"

text \<open>
  Modelled from the spec: \<^verbatim>\<open>this.input_.foundation\<close>, whose class
  (\<^verbatim>\<open>input/foundation.js\<close>) is missing. Each method of the spec's capability surface
  answers from the field of its name; \<^verbatim>\<open>setDisabled(bool)\<close> sets what
  \<^verbatim>\<open>isDisabled()\<close> returns. What the property \<^verbatim>\<open>disabled\<close> of the object reads as
  is not said anywhere and is left open, as the field \<open>input_disabledProperty\<close>.
\<close>

definition inputFoundation :: "textfield input_foundation" where
  "inputFoundation = \<lparr>
     input_getValue = input_value,
     input_isBadInput = input_badInput,
     input_checkValidity = input_validity,
     input_setDisabled = (\<lambda>b w. w\<lparr>input_isDisabledState := b\<rparr>),
     input_isDisabled = input_isDisabledState,
     input_disabled = input_disabledProperty \<rparr>"

text \<open>
  Modelled from the spec: \<^verbatim>\<open>this.label_.foundation\<close>, whose class
  (\<^verbatim>\<open>label/foundation.js\<close>) is missing. The label keeps its state to itself: its three
  methods change nothing of the state above and show in the call sequence only.
\<close>

definition labelFoundation :: "textfield label_foundation" where
  "labelFoundation = \<lparr>
     label_floatLabel = (\<lambda>w. w),
     label_deactivateFocus = (\<lambda>_ w. w),
     label_changeValidity = (\<lambda>_ w. w) \<rparr>"

text \<open>
  Modelled from the spec: \<^verbatim>\<open>MDCComponent\<close> (package \<^verbatim>\<open>@material/base\<close>) is missing.
  Its \<^verbatim>\<open>listen(evtType, handler)\<close> attaches the handler to the component's element and
  its \<^verbatim>\<open>emit(evtType, detail)\<close> dispatches an event there. As with the DOM's
  \<^verbatim>\<open>addEventListener\<close>, \<^verbatim>\<open>classList.add\<close> and their inverses, attaching a listener
  or adding a class that is already there changes nothing.
\<close>

definition attach :: "'a \<Rightarrow> 'a list \<Rightarrow> 'a list" where
  "attach x xs = (if x \<in> set xs then xs else xs @ [x])"

definition listen :: "input_event \<Rightarrow> handler \<Rightarrow> textfield \<Rightarrow> textfield" where
  "listen evtType h w = w\<lparr>input_listeners := attach (evtType, h) (input_listeners w)\<rparr>"

definition emit :: "strings_key \<Rightarrow> textfield \<Rightarrow> textfield" where
  "emit evtType w = w\<lparr>emitted := emitted w @ [evtType]\<rparr>"

text \<open>
  The object literal of \<^verbatim>\<open>getDefaultFoundation()\<close>, merged with
  \<^verbatim>\<open>getIconAdapterMethods_()\<close>. It defines eleven of the adapter's methods (and the two
  unused accessors); both \<^verbatim>\<open>registerInputInteractionHandler\<close> and
  \<^verbatim>\<open>deregisterInputInteractionHandler\<close> call \<^verbatim>\<open>this.input_.listen\<close>.
\<close>

definition componentAdapter :: "textfield adapter" where
  "componentAdapter = emptyAdapter \<lparr>
     addClass := Some (\<lambda>className w.
       w\<lparr>root_classList := attach className (root_classList w)\<rparr>),
     removeClass := Some (\<lambda>className w.
       w\<lparr>root_classList := removeAll className (root_classList w)\<rparr>),
     setIconAttr := Some (\<lambda>name v w.
       case icon_attributes w of
         None \<Rightarrow> w
       | Some attrs \<Rightarrow> w\<lparr>icon_attributes := Some (attrs(name \<mapsto> v))\<rparr>),
     eventTargetHasClass := Some (\<lambda>target className w. className \<in> set (classList target)),
     registerTextFieldInteractionHandler := Some (\<lambda>evtType h w.
       w\<lparr>root_listeners := attach (evtType, h) (root_listeners w)\<rparr>),
     deregisterTextFieldInteractionHandler := Some (\<lambda>evtType h w.
       w\<lparr>root_listeners := removeAll (evtType, h) (root_listeners w)\<rparr>),
     notifyIconAction := Some (emit ICON_EVENT),
     getInputFoundation := Some (Some inputFoundation),
     getLabelFoundation := Some (Some labelFoundation),
     registerInputInteractionHandler := Some (\<lambda>evtType h. listen evtType h),
     deregisterInputInteractionHandler := Some (\<lambda>evtType h. listen evtType h) \<rparr>"

text \<open>A freshly constructed component: \<^verbatim>\<open>new MDCTextfieldFoundation(adapter)\<close> over the
  host state \<open>w\<close>, no call made yet.\<close>

definition newTextfield :: "textfield \<Rightarrow> textfield run" where
  "newTextfield w = \<lparr> fnd = constructor (Some componentAdapter), world = w, trace = [] \<rparr>"

text \<open>
  The host delivering an event: every listener attached for the event type is called, in
  the order of attachment.
\<close>

definition deliverToInput :: "input_event \<Rightarrow> event \<Rightarrow> (textfield, unit) js" where
  "deliverToInput evtType evt s =
     forEach (map snd (filter (\<lambda>l. fst l = evtType) (input_listeners (world s))))
       (\<lambda>h. invoke h evt) s"

definition deliverToRoot :: "event \<Rightarrow> (textfield, unit) js" where
  "deliverToRoot evt s =
     forEach (map snd (filter (\<lambda>l. fst l = evt_type evt) (root_listeners (world s))))
       (\<lambda>h. invoke h evt) s"

subsection \<open>Concrete hosts, events and scenarios\<close>

text \<open>A run state whose foundation was constructed over the component's adapter.\<close>

definition isTextfield :: "textfield run \<Rightarrow> bool" where
  "isTextfield s = (adapter_' (fnd s) = assign defaultAdapter componentAdapter)"

text \<open>Recognises a call of the label's \<^verbatim>\<open>deactivateFocus\<close>, whatever its argument.\<close>

definition isLabelDeactivateFocus :: "call \<Rightarrow> bool" where
  "isLabelDeactivateFocus c = (case c of Label_deactivateFocus _ \<Rightarrow> True | _ \<Rightarrow> False)"

text \<open>
  An adapter that implements the three help-text methods of the adapter contract over a
  help-text element with a fixed class list; the world is the element's attribute map.
  The component's own adapter leaves these three methods to the default adapter.
\<close>

definition helptextFixture :: "css_class list \<Rightarrow> (strings_key \<rightharpoonup> string) adapter" where
  "helptextFixture classes = emptyAdapter \<lparr>
     helptextHasClass := Some (\<lambda>c _. c \<in> set classes),
     setHelptextAttr := Some (\<lambda>n v attrs. attrs(n \<mapsto> v)),
     removeHelptextAttr := Some (\<lambda>n attrs. attrs(n := None)) \<rparr>"

text \<open>
  A recording adapter, as a unit test of the foundation would use: its host state is the
  list of the state-changing calls it has received, in order. The input answers a fixed
  value, bad-input flag and native validity, and has no property \<^verbatim>\<open>disabled\<close>; the help
  text carries no class.
\<close>

definition spyInput :: "string \<Rightarrow> bool \<Rightarrow> bool \<Rightarrow> call list input_foundation" where
  "spyInput v bad valid = \<lparr>
     input_getValue = (\<lambda>_. v),
     input_isBadInput = (\<lambda>_. bad),
     input_checkValidity = (\<lambda>_. valid),
     input_setDisabled = (\<lambda>b w. w @ [Input_setDisabled b]),
     input_isDisabled = (\<lambda>w. last (False # [b. Input_setDisabled b \<leftarrow> w])),
     input_disabled = (\<lambda>_. None) \<rparr>"

definition spyLabel :: "call list label_foundation" where
  "spyLabel = \<lparr>
     label_floatLabel = (\<lambda>w. w @ [Label_floatLabel]),
     label_deactivateFocus = (\<lambda>b w. w @ [Label_deactivateFocus b]),
     label_changeValidity = (\<lambda>b w. w @ [Label_changeValidity b]) \<rparr>"

definition spyAdapter :: "string \<Rightarrow> bool \<Rightarrow> bool \<Rightarrow> call list adapter" where
  "spyAdapter v bad valid = \<lparr>
     addClass = Some (\<lambda>c w. w @ [AddClass c]),
     removeClass = Some (\<lambda>c w. w @ [RemoveClass c]),
     setIconAttr = Some (\<lambda>n x w. w @ [SetIconAttr n x]),
     eventTargetHasClass = Some (\<lambda>t c _. c \<in> set (classList t)),
     registerTextFieldInteractionHandler =
       Some (\<lambda>e h w. w @ [RegisterTextFieldInteractionHandler e h]),
     deregisterTextFieldInteractionHandler =
       Some (\<lambda>e h w. w @ [DeregisterTextFieldInteractionHandler e h]),
     notifyIconAction = Some (\<lambda>w. w @ [NotifyIconAction]),
     addClassToBottomLine = Some (\<lambda>c w. w @ [AddClassToBottomLine c]),
     removeClassFromBottomLine = Some (\<lambda>c w. w @ [RemoveClassFromBottomLine c]),
     addClassToHelptext = None,
     removeClassFromHelptext = None,
     helptextHasClass = Some (\<lambda>_ _. False),
     registerTransitionEndHandler = Some (\<lambda>h w. w @ [RegisterTransitionEndHandler h]),
     deregisterTransitionEndHandler = Some (\<lambda>h w. w @ [DeregisterTransitionEndHandler h]),
     setBottomLineAttr = Some (\<lambda>n x w. w @ [SetBottomLineAttr n x]),
     setHelptextAttr = Some (\<lambda>n x w. w @ [SetHelptextAttr n x]),
     removeHelptextAttr = Some (\<lambda>n w. w @ [RemoveHelptextAttr n]),
     getInputFoundation = Some (Some (spyInput v bad valid)),
     getLabelFoundation = Some (Some spyLabel),
     registerInputInteractionHandler =
       Some (\<lambda>e h w. w @ [RegisterInputInteractionHandler e h]),
     deregisterInputInteractionHandler =
       Some (\<lambda>e h w. w @ [DeregisterInputInteractionHandler e h]) \<rparr>"

definition newSpy :: "string \<Rightarrow> bool \<Rightarrow> bool \<Rightarrow> call list run" where
  "newSpy v bad valid =
     \<lparr> fnd = constructor (Some (spyAdapter v bad valid)), world = [], trace = [] \<rparr>"

definition inputTarget :: target where
  "inputTarget = \<lparr> classList = [], rectLeft = 0 \<rparr>"

definition iconTarget :: target where
  "iconTarget = \<lparr> classList = [TEXT_FIELD_ICON], rectLeft = 0 \<rparr>"

definition plainEvent :: "string \<Rightarrow> target \<Rightarrow> event" where
  "plainEvent ty tgt = \<lparr> evt_type = ty, evt_target = tgt, evt_key = None, evt_keyCode = None,
     evt_propertyName = None, evt_clientX = 0, evt_clientY = 0 \<rparr>"

definition opacityEnd :: event where
  "opacityEnd =
     (plainEvent ''transitionend'' inputTarget)\<lparr>evt_propertyName := Some ''opacity''\<rparr>"

text \<open>An enabled, empty, valid text field with an icon; the same pre-filled; the same with
  a disabled input whose foundation shows it in its \<^verbatim>\<open>disabled\<close> property.\<close>

definition emptyField :: textfield where
  "emptyField = \<lparr> root_classList = [], root_listeners = [], input_listeners = [],
     input_value = [], input_badInput = False, input_validity = True,
     input_isDisabledState = False, input_disabledProperty = None,
     icon_attributes = Some Map.empty, emitted = [] \<rparr>"

definition prefilledField :: textfield where
  "prefilledField = emptyField\<lparr>input_value := ''abc''\<rparr>"

definition disabledField :: textfield where
  "disabledField =
     emptyField\<lparr>input_isDisabledState := True, input_disabledProperty := Some True\<rparr>"



text \<open>
  \<open>keeps P m\<close>: when \<open>m\<close> returns, a property \<open>P\<close> of the foundation object that held
  before still holds. \<open>stable P\<close>: \<open>P\<close> survives the only two assignments the class makes
  to its fields after construction.
\<close>

definition keeps :: "('w foundation \<Rightarrow> bool) \<Rightarrow> ('w, 'a) js \<Rightarrow> bool" where
  "keeps P m = (\<forall>s x s'. P (fnd s) \<longrightarrow> m s = Inr (x, s') \<longrightarrow> P (fnd s'))"

definition stable :: "('w foundation \<Rightarrow> bool) \<Rightarrow> bool" where
  "stable P = (\<forall>t. P t \<longrightarrow> P (t\<lparr>receivedUserInput_' := Some True\<rparr>)
                         \<and> P (t\<lparr>useCustomValidityChecking_' := True\<rparr>))"

section \<open>Properties\<close>

subsection \<open>Unfolding\<close>

lemmas monad_defs = ret_def andThen_def thenDo_def reading_def assigning_def proc_def query_def
  adapterProc_def adapterQuery_def callGetInputFoundation_def callGetLabelFoundation_def
  onProc_def onQuery_def onRead_def

lemmas call_defs = callAddClass_def callRemoveClass_def callSetIconAttr_def
  callEventTargetHasClass_def callRegisterTextFieldInteractionHandler_def
  callDeregisterTextFieldInteractionHandler_def callNotifyIconAction_def
  callAddClassToBottomLine_def callRemoveClassFromBottomLine_def callHelptextHasClass_def
  callRegisterTransitionEndHandler_def callDeregisterTransitionEndHandler_def
  callSetBottomLineAttr_def callSetHelptextAttr_def callRemoveHelptextAttr_def
  callRegisterInputInteractionHandler_def callDeregisterInputInteractionHandler_def

lemmas adapter_defs = constructor_def assign_def over_def defaultAdapter_def emptyAdapter_def

lemmas component_defs = newTextfield_def componentAdapter_def inputFoundation_def
  labelFoundation_def listen_def emit_def attach_def

lemmas sample_defs = inputTarget_def iconTarget_def plainEvent_def emptyField_def opacityEnd_def
  prefilledField_def disabledField_def

lemmas spy_defs = spyInput_def spyLabel_def spyAdapter_def newSpy_def

subsection \<open>What the methods leave alone in the foundation object\<close>

lemma keeps_ret: "keeps P (ret x)"
  by (simp add: keeps_def ret_def)

lemma keeps_andThen:
  assumes "keeps P m" and "\<And>x. keeps P (f x)"
  shows "keeps P (andThen m f)"
  unfolding keeps_def
proof (intro allI impI)
  fix s x s'
  assume p: "P (fnd s)" and r: "andThen m f s = Inr (x, s')"
  from r obtain y s1 where m: "m s = Inr (y, s1)" and f: "f y s1 = Inr (x, s')"
    by (auto simp: andThen_def split: sum.splits)
  from assms(1) p m have "P (fnd s1)"
    unfolding keeps_def by blast
  with assms(2)[of y] f show "P (fnd s')"
    unfolding keeps_def by blast
qed

lemma keeps_thenDo: "keeps P m \<Longrightarrow> keeps P n \<Longrightarrow> keeps P (thenDo m n)"
  unfolding thenDo_def by (rule keeps_andThen)

lemma keeps_reading: "(\<And>t. keeps P (f t)) \<Longrightarrow> keeps P (reading f)"
  unfolding keeps_def reading_def by blast

lemma keeps_proc: "keeps P (proc c m)"
  by (auto simp: keeps_def proc_def split: option.splits)

lemma keeps_query: "keeps P (query c m)"
  by (auto simp: keeps_def query_def split: option.splits)

lemma keeps_onRead: "keeps P (onRead obj p)"
  by (auto simp: keeps_def onRead_def split: option.splits)

lemma keeps_if: "keeps P m \<Longrightarrow> keeps P n \<Longrightarrow> keeps P (if b then m else n)"
  by simp

lemma keeps_forEach: "(\<And>x. keeps P (f x)) \<Longrightarrow> keeps P (forEach xs f)"
  by (induction xs) (simp_all add: keeps_ret keeps_thenDo)

lemma keeps_adapterProc: "keeps P (adapterProc c sel)"
  unfolding adapterProc_def by (intro keeps_reading keeps_proc)

lemma keeps_adapterQuery: "keeps P (adapterQuery c sel)"
  unfolding adapterQuery_def by (intro keeps_reading keeps_query)

lemmas keeps_prims = keeps_ret keeps_andThen keeps_thenDo keeps_reading keeps_proc keeps_query
  keeps_onRead keeps_if keeps_forEach keeps_adapterProc keeps_adapterQuery

lemma keeps_received:
  "stable P \<Longrightarrow> keeps P (assigning (\<lambda>t. t\<lparr>receivedUserInput_' := Some True\<rparr>))"
  by (simp add: keeps_def stable_def assigning_def)

lemma keeps_custom:
  "stable P \<Longrightarrow> keeps P (assigning (\<lambda>t. t\<lparr>useCustomValidityChecking_' := True\<rparr>))"
  by (simp add: keeps_def stable_def assigning_def)

lemma keeps_changeValidity: "keeps P (changeValidity_' b)"
  unfolding changeValidity_'_def updateHelptext_'_def hideHelptext_'_def call_defs
    callGetLabelFoundation_def onProc_def Let_def
  by (intro keeps_prims)

lemma keeps_perform: "stable P \<Longrightarrow> keeps P (perform x)"
proof (cases x)
  case Init
  show ?thesis unfolding Init perform.simps init_def call_defs callGetInputFoundation_def
      callGetLabelFoundation_def onProc_def onQuery_def
    by (intro keeps_prims)
next
  case Destroy
  show ?thesis unfolding Destroy perform.simps destroy_def call_defs
    by (intro keeps_prims)
next
  case (SetDisabled b)
  show ?thesis unfolding SetDisabled perform.simps setDisabled_def call_defs
      callGetInputFoundation_def onProc_def
    by (intro keeps_prims)
next
  case (SetValid b)
  assume "stable P"
  then show ?thesis unfolding SetValid perform.simps setValid_def
    by (intro keeps_thenDo keeps_custom keeps_changeValidity)
next
  case (Fire h evt)
  assume st: "stable P"
  show ?thesis
  proof (cases h)
    case InputFocusHandler
    show ?thesis unfolding Fire InputFocusHandler perform.simps invoke.simps activateFocus_'_def
        showHelptext_'_def call_defs callGetLabelFoundation_def onProc_def
      by (intro keeps_prims)
  next
    case InputBlurHandler
    show ?thesis unfolding Fire InputBlurHandler perform.simps invoke.simps deactivateFocus_'_def
        call_defs callGetInputFoundation_def callGetLabelFoundation_def onProc_def onQuery_def
      by (intro keeps_prims keeps_changeValidity)
  next
    case SetPointerXOffset
    show ?thesis unfolding Fire SetPointerXOffset perform.simps invoke.simps
        setBottomLineTransformOrigin_'_def call_defs Let_def
      by (intro keeps_prims)
  next
    case TextFieldInteractionHandler
    show ?thesis unfolding Fire TextFieldInteractionHandler perform.simps invoke.simps
        handleTextFieldInteraction_'_def call_defs callGetInputFoundation_def Let_def
      by (intro keeps_prims keeps_received st)
  next
    case TransitionEndHandler
    show ?thesis unfolding Fire TransitionEndHandler perform.simps invoke.simps
        transitionEnd_'_def call_defs
      by (intro keeps_prims)
  qed
qed

lemma keeps_performAll: "stable P \<Longrightarrow> keeps P (performAll xs)"
  by (induction xs) (simp_all add: keeps_ret keeps_thenDo keeps_perform)


lemma stable_isFocused: "stable (\<lambda>t. isFocused_' t = None)"
  by (simp add: stable_def)

subsection \<open>The component with custom validity\<close>




lemma isTextfield_new: "isTextfield (newTextfield w)"
  by (simp add: isTextfield_def newTextfield_def constructor_def)

subsection \<open>The methods of the recording adapter\<close>

lemma spy_caps:
  "addClass (adapter_' (fnd (newSpy v bad valid))) = Some (\<lambda>c w. w @ [AddClass c])"
  "removeClass (adapter_' (fnd (newSpy v bad valid))) = Some (\<lambda>c w. w @ [RemoveClass c])"
  "getInputFoundation (adapter_' (fnd (newSpy v bad valid))) = Some (Some (spyInput v bad valid))"
  "getLabelFoundation (adapter_' (fnd (newSpy v bad valid))) = Some (Some spyLabel)"
  "registerInputInteractionHandler (adapter_' (fnd (newSpy v bad valid)))
     = Some (\<lambda>e h w. w @ [RegisterInputInteractionHandler e h])"
  "registerTextFieldInteractionHandler (adapter_' (fnd (newSpy v bad valid)))
     = Some (\<lambda>e h w. w @ [RegisterTextFieldInteractionHandler e h])"
  "registerTransitionEndHandler (adapter_' (fnd (newSpy v bad valid)))
     = Some (\<lambda>h w. w @ [RegisterTransitionEndHandler h])"
  "helptextHasClass (adapter_' (fnd (newSpy v bad valid))) = Some (\<lambda>_ _. False)"
  "setHelptextAttr (adapter_' (fnd (newSpy v bad valid))) = Some (\<lambda>n x w. w @ [SetHelptextAttr n x])"
  "removeHelptextAttr (adapter_' (fnd (newSpy v bad valid))) = Some (\<lambda>n w. w @ [RemoveHelptextAttr n])"
  by (simp_all add: newSpy_def spyAdapter_def adapter_defs)

subsection \<open>Claims\<close>

text \<open>
  C1 fails on the code: no method assigns \<^verbatim>\<open>isFocused_\<close>, so the guard
  \<^verbatim>\<open>!this.isFocused_\<close> of \<^verbatim>\<open>transitionEnd_\<close> always holds. After a focus event, while
  the root element carries the focused class, a transition-end event for \<^verbatim>\<open>opacity\<close>
  still removes the bottom line's active class.
\<close>

theorem C1_active_class_removed_while_focused:
  "thenDo activateFocus_' (transitionEnd_' opacityEnd) (newTextfield emptyField)
   = Inr ((), (newTextfield emptyField) \<lparr>
       world := emptyField\<lparr>root_classList := [FOCUSED]\<rparr>,
       trace := [AddClass FOCUSED, AddClassToBottomLine BOTTOM_LINE_ACTIVE, GetLabelFoundation,
                 Label_floatLabel, RemoveHelptextAttr ARIA_HIDDEN,
                 RemoveClassFromBottomLine BOTTOM_LINE_ACTIVE] \<rparr>)"
  by (simp add: activateFocus_'_def transitionEnd_'_def showHelptext_'_def truthy_def monad_defs
        call_defs adapter_defs component_defs sample_defs)

text \<open>
  C2 fails on the code: \<^verbatim>\<open>handleTextFieldInteraction_\<close> reads the property
  \<^verbatim>\<open>disabled\<close> of the input foundation, which is not how the input reports that it is
  disabled (\<^verbatim>\<open>index.js\<close> asks \<^verbatim>\<open>isDisabled()\<close>) and which no operation writes. After
  \<^verbatim>\<open>setDisabled(true)\<close> on the component the input's \<^verbatim>\<open>isDisabled()\<close> is true, yet a
  click on the icon sets \<^verbatim>\<open>receivedUserInput_\<close> and emits the icon event.
\<close>

theorem C2_disabled_field_still_interacts:
  "thenDo (setDisabled True) (handleTextFieldInteraction_' (plainEvent ''click'' iconTarget))
     (newTextfield emptyField)
   = Inr ((), (newTextfield emptyField) \<lparr>
       fnd := (constructor (Some componentAdapter))\<lparr>receivedUserInput_' := Some True\<rparr>,
       world := emptyField\<lparr>root_classList := [DISABLED], input_isDisabledState := True,
                  icon_attributes := Some [''tabindex'' \<mapsto> ''-1''],
                  emitted := [ICON_EVENT]\<rparr>,
       trace := [GetInputFoundation, Input_setDisabled True, AddClass DISABLED,
                 SetIconAttr ''tabindex'' ''-1'', GetInputFoundation,
                 EventTargetHasClass iconTarget TEXT_FIELD_ICON, NotifyIconAction] \<rparr>)
   \<and> input_isDisabled inputFoundation
        (emptyField\<lparr>root_classList := [DISABLED], input_isDisabledState := True,
                  icon_attributes := Some [''tabindex'' \<mapsto> ''-1''],
                  emitted := [ICON_EVENT]\<rparr>)"
  by (simp add: setDisabled_def handleTextFieldInteraction_'_def truthy_def monad_defs
        call_defs adapter_defs component_defs sample_defs)

text \<open>
  C3 fails on the code: the component's \<^verbatim>\<open>deregisterInputInteractionHandler\<close> calls
  \<^verbatim>\<open>listen\<close>, as \<^verbatim>\<open>registerInputInteractionHandler\<close> does. \<^verbatim>\<open>destroy()\<close> passes the
  stored handler values and removes the upgraded class and the root element's listeners,
  but after \<^verbatim>\<open>init()\<close> and \<^verbatim>\<open>destroy()\<close> the three input listeners are still attached,
  and a focus event delivered to the input still adds the focused class (the trace below
  is that of the delivery alone). A click delivered to the root element reaches no
  listener.
\<close>

theorem C3_input_handlers_remain_after_destroy:
  "deregisterInputInteractionHandler componentAdapter
     = registerInputInteractionHandler componentAdapter
   \<and> thenDo init destroy (newTextfield emptyField)
     = Inr ((), (newTextfield emptyField) \<lparr>
         world := emptyField\<lparr>input_listeners :=
           [(FOCUS_EVENT, InputFocusHandler), (BLUR_EVENT, InputBlurHandler),
            (PRESSED_EVENT, SetPointerXOffset)]\<rparr>,
         trace := [AddClass UPGRADED, GetInputFoundation, Input_getValue,
           RegisterInputInteractionHandler FOCUS_EVENT InputFocusHandler,
           RegisterInputInteractionHandler BLUR_EVENT InputBlurHandler,
           RegisterInputInteractionHandler PRESSED_EVENT SetPointerXOffset,
           RegisterTextFieldInteractionHandler ''click'' TextFieldInteractionHandler,
           RegisterTextFieldInteractionHandler ''keydown'' TextFieldInteractionHandler,
           RegisterTransitionEndHandler TransitionEndHandler,
           RemoveClass UPGRADED,
           DeregisterInputInteractionHandler FOCUS_EVENT InputFocusHandler,
           DeregisterInputInteractionHandler BLUR_EVENT InputBlurHandler,
           DeregisterInputInteractionHandler PRESSED_EVENT SetPointerXOffset,
           DeregisterTextFieldInteractionHandler ''click'' TextFieldInteractionHandler,
           DeregisterTextFieldInteractionHandler ''keydown'' TextFieldInteractionHandler,
           DeregisterTransitionEndHandler TransitionEndHandler] \<rparr>)
   \<and> deliverToInput FOCUS_EVENT (plainEvent ''focus'' inputTarget)
       ((newTextfield emptyField) \<lparr>
         world := emptyField\<lparr>input_listeners :=
           [(FOCUS_EVENT, InputFocusHandler), (BLUR_EVENT, InputBlurHandler),
            (PRESSED_EVENT, SetPointerXOffset)]\<rparr> \<rparr>)
     = Inr ((), (newTextfield emptyField) \<lparr>
         world := emptyField\<lparr>root_classList := [FOCUSED], input_listeners :=
           [(FOCUS_EVENT, InputFocusHandler), (BLUR_EVENT, InputBlurHandler),
            (PRESSED_EVENT, SetPointerXOffset)]\<rparr>,
         trace := [AddClass FOCUSED, AddClassToBottomLine BOTTOM_LINE_ACTIVE, GetLabelFoundation,
                   Label_floatLabel, RemoveHelptextAttr ARIA_HIDDEN] \<rparr>)
   \<and> deliverToRoot (plainEvent ''click'' iconTarget)
       ((newTextfield emptyField) \<lparr>
         world := emptyField\<lparr>input_listeners :=
           [(FOCUS_EVENT, InputFocusHandler), (BLUR_EVENT, InputBlurHandler),
            (PRESSED_EVENT, SetPointerXOffset)]\<rparr> \<rparr>)
     = Inr ((), (newTextfield emptyField) \<lparr>
         world := emptyField\<lparr>input_listeners :=
           [(FOCUS_EVENT, InputFocusHandler), (BLUR_EVENT, InputBlurHandler),
            (PRESSED_EVENT, SetPointerXOffset)]\<rparr> \<rparr>)"
  by (simp add: init_def destroy_def deliverToInput_def deliverToRoot_def activateFocus_'_def
        showHelptext_'_def monad_defs call_defs adapter_defs component_defs sample_defs)



text \<open>
  C5, as stated, fails: with a help text that carries the validation-message class and is
  hidden (\<^verbatim>\<open>aria-hidden\<close> is \<^verbatim>\<open>true\<close>), \<^verbatim>\<open>updateHelptext_(false)\<close> sets the role to
  \<^verbatim>\<open>alert\<close> and makes no other call: \<^verbatim>\<open>aria-hidden\<close> is still \<^verbatim>\<open>true\<close> afterwards.
\<close>

theorem C5_aria_hidden_not_cleared_counterexample:
  "updateHelptext_' False
     \<lparr> fnd = constructor (Some (helptextFixture [HELPTEXT_VALIDATION_MSG])),
       world = [ARIA_HIDDEN \<mapsto> ''true''], trace = [] \<rparr>
   = Inr ((),
     \<lparr> fnd = constructor (Some (helptextFixture [HELPTEXT_VALIDATION_MSG])),
       world = [ARIA_HIDDEN \<mapsto> ''true'', ROLE \<mapsto> ''alert''],
       trace = [HelptextHasClass HELPTEXT_PERSISTENT, HelptextHasClass HELPTEXT_VALIDATION_MSG,
                SetHelptextAttr ROLE ''alert''] \<rparr>)"
  by (simp add: updateHelptext_'_def hideHelptext_'_def monad_defs call_defs adapter_defs
        helptextFixture_def)

text \<open>
  C5, amended. \<^verbatim>\<open>updateHelptext_(isValid)\<close>, over an adapter with the three help-text
  methods, returns after exactly these calls: the two class queries; then
  \<^verbatim>\<open>setHelptextAttr(ROLE, 'alert')\<close> when the help text carries the validation-message
  class and \<open>isValid\<close> is false, and \<^verbatim>\<open>removeHelptextAttr(ROLE)\<close> otherwise; then
  \<^verbatim>\<open>setHelptextAttr(ARIA_HIDDEN, 'true')\<close> exactly when the help text is neither
  persistent nor a validation message that needs display. It never removes
  \<^verbatim>\<open>aria-hidden\<close>: a visible help text stays visible, a hidden one stays hidden.
\<close>

theorem C5_updateHelptext_effects:
  assumes "helptextHasClass (adapter_' (fnd s)) = Some hasClass"
      and "setHelptextAttr (adapter_' (fnd s)) = Some setAttr"
      and "removeHelptextAttr (adapter_' (fnd s)) = Some removeAttr"
  shows "updateHelptext_' isValid s =
     (let persistent = hasClass HELPTEXT_PERSISTENT (world s);
          needsDisplay = (hasClass HELPTEXT_VALIDATION_MSG (world s) \<and> \<not> isValid);
          w1 = (if needsDisplay then setAttr ROLE ''alert'' (world s)
                else removeAttr ROLE (world s));
          w2 = (if persistent \<or> needsDisplay then w1 else setAttr ARIA_HIDDEN ''true'' w1)
      in Inr ((), s\<lparr>world := w2,
                    trace := trace s
                      @ [HelptextHasClass HELPTEXT_PERSISTENT,
                         HelptextHasClass HELPTEXT_VALIDATION_MSG]
                      @ [if needsDisplay then SetHelptextAttr ROLE ''alert''
                         else RemoveHelptextAttr ROLE]
                      @ (if persistent \<or> needsDisplay then []
                         else [SetHelptextAttr ARIA_HIDDEN ''true''])\<rparr>))"
  using assms
  by (simp add: updateHelptext_'_def hideHelptext_'_def monad_defs call_defs Let_def)

text \<open>C5 (amended) at a valid field whose help text is neither persistent nor a
  validation message: the role is removed and the help text is hidden.\<close>

theorem C5_updateHelptext_effects_witness:
  "\<exists>s'. updateHelptext_' True
           \<lparr> fnd = constructor (Some (helptextFixture [])), world = [ROLE \<mapsto> ''alert''],
             trace = [] \<rparr> = Inr ((), s')
        \<and> world s' ROLE = None
        \<and> world s' ARIA_HIDDEN = Some ''true''
        \<and> trace s' = [HelptextHasClass HELPTEXT_PERSISTENT,
                       HelptextHasClass HELPTEXT_VALIDATION_MSG,
                       RemoveHelptextAttr ROLE, SetHelptextAttr ARIA_HIDDEN ''true'']"
proof -
  let ?s = "\<lparr> fnd = constructor (Some (helptextFixture [])), world = [ROLE \<mapsto> ''alert''],
             trace = [] \<rparr>"
  have h1: "helptextHasClass (adapter_' (fnd ?s)) = Some (\<lambda>c _. c \<in> set [])"
    by (simp add: adapter_defs helptextFixture_def)
  have h2: "setHelptextAttr (adapter_' (fnd ?s)) = Some (\<lambda>n v attrs. attrs(n \<mapsto> v))"
    by (simp add: adapter_defs helptextFixture_def)
  have h3: "removeHelptextAttr (adapter_' (fnd ?s)) = Some (\<lambda>n attrs. attrs(n := None))"
    by (simp add: adapter_defs helptextFixture_def)
  show ?thesis
    using C5_updateHelptext_effects[OF h1 h2 h3, of True]
    by simp
qed

text \<open>
  C6. With the input enabled, \<^verbatim>\<open>handleTextFieldInteraction_\<close> returns with
  \<^verbatim>\<open>receivedUserInput_\<close> set, and it calls \<^verbatim>\<open>notifyIconAction\<close> exactly once, the host
  changing as that method changes it, if the event target carries the icon class and the
  event is a click, or its key is \<^verbatim>\<open>Enter\<close>, or its key code is 13; otherwise it does
  not call it and the host is unchanged.
\<close>

theorem C6_icon_notification_iff:
  assumes "getInputFoundation (adapter_' (fnd s)) = Some (Some input)"
      and "\<not> truthy (input_disabled input (world s))"
      and "eventTargetHasClass (adapter_' (fnd s)) = Some hasClass"
      and "notifyIconAction (adapter_' (fnd s)) = Some notify"
  shows "let notifies = (hasClass (evt_target evt) TEXT_FIELD_ICON (world s)
                          \<and> (evt_type evt = ''click'' \<or> evt_key evt = Some ''Enter''
                               \<or> evt_keyCode evt = Some 13));
             d = [GetInputFoundation, EventTargetHasClass (evt_target evt) TEXT_FIELD_ICON]
                 @ (if notifies then [NotifyIconAction] else [])
         in handleTextFieldInteraction_' evt s
              = Inr ((), s\<lparr>fnd := (fnd s)\<lparr>receivedUserInput_' := Some True\<rparr>,
                            world := (if notifies then notify (world s) else world s),
                            trace := trace s @ d\<rparr>)
            \<and> count_list d NotifyIconAction = (if notifies then 1 else 0)"
  using assms by (auto simp: handleTextFieldInteraction_'_def monad_defs call_defs Let_def)

text \<open>C6 at a click on the icon of an enabled text field, where the icon event is emitted,
  and at a keydown of another key on the icon, where nothing is emitted.\<close>

theorem C6_icon_notification_iff_witness:
  "(\<exists>s'. handleTextFieldInteraction_' (plainEvent ''click'' iconTarget) (newTextfield emptyField)
           = Inr ((), s')
        \<and> receivedUserInput_' (fnd s') = Some True
        \<and> emitted (world s') = [ICON_EVENT]
        \<and> trace s' = [GetInputFoundation, EventTargetHasClass iconTarget TEXT_FIELD_ICON,
                       NotifyIconAction])
   \<and> (\<exists>s'. handleTextFieldInteraction_'
             ((plainEvent ''keydown'' iconTarget)\<lparr>evt_key := Some ''a'', evt_keyCode := Some 65\<rparr>)
             (newTextfield emptyField) = Inr ((), s')
        \<and> receivedUserInput_' (fnd s') = Some True
        \<and> emitted (world s') = []
        \<and> trace s' = [GetInputFoundation, EventTargetHasClass iconTarget TEXT_FIELD_ICON])"
proof -
  have h1: "getInputFoundation (adapter_' (fnd (newTextfield emptyField)))
              = Some (Some inputFoundation)"
    by (simp add: adapter_defs newTextfield_def componentAdapter_def)
  have h2: "\<not> truthy (input_disabled inputFoundation (world (newTextfield emptyField)))"
    by (simp add: truthy_def newTextfield_def inputFoundation_def sample_defs)
  have h3: "eventTargetHasClass (adapter_' (fnd (newTextfield emptyField)))
              = Some (\<lambda>target className w. className \<in> set (classList target))"
    by (simp add: adapter_defs newTextfield_def componentAdapter_def)
  have h4: "notifyIconAction (adapter_' (fnd (newTextfield emptyField))) = Some (emit ICON_EVENT)"
    by (simp add: adapter_defs newTextfield_def componentAdapter_def)
  show ?thesis
    using C6_icon_notification_iff[OF h1 h2 h3 h4, of "plainEvent ''click'' iconTarget"]
      C6_icon_notification_iff[OF h1 h2 h3 h4,
        of "(plainEvent ''keydown'' iconTarget)\<lparr>evt_key := Some ''a'', evt_keyCode := Some 65\<rparr>"]
    by (simp add: newTextfield_def emit_def sample_defs)
qed

text \<open>
  C7. \<^verbatim>\<open>init()\<close>, over an adapter that has the methods it calls, returns, and what it
  does to the host is, in this order: add the upgraded class, read the input's value,
  float the label if that value is not empty, register the six handlers. So the label's
  \<^verbatim>\<open>floatLabel()\<close> is called exactly once during \<^verbatim>\<open>init()\<close> when the value read is
  not empty, and not at all when it is empty.
\<close>

theorem C7_init_floats_label_iff_prefilled:
  assumes "addClass (adapter_' (fnd s)) = Some add"
      and "getInputFoundation (adapter_' (fnd s)) = Some (Some input)"
      and "getLabelFoundation (adapter_' (fnd s)) = Some (Some label)"
      and "registerInputInteractionHandler (adapter_' (fnd s)) = Some regInput"
      and "registerTextFieldInteractionHandler (adapter_' (fnd s)) = Some regRoot"
      and "registerTransitionEndHandler (adapter_' (fnd s)) = Some regEnd"
  shows "let w1 = add UPGRADED (world s);
             prefilled = (input_getValue input w1 \<noteq> []);
             w2 = (if prefilled then label_floatLabel label w1 else w1);
             w3 = regInput FOCUS_EVENT (inputFocusHandler_' (fnd s)) w2;
             w4 = regInput BLUR_EVENT (inputBlurHandler_' (fnd s)) w3;
             w5 = regInput PRESSED_EVENT (setPointerXOffset_' (fnd s)) w4;
             w6 = regRoot ''click'' (textFieldInteractionHandler_' (fnd s)) w5;
             w7 = regRoot ''keydown'' (textFieldInteractionHandler_' (fnd s)) w6;
             w8 = regEnd (transitionEndHandler_' (fnd s)) w7;
             d = [AddClass UPGRADED, GetInputFoundation, Input_getValue]
                 @ (if prefilled then [GetLabelFoundation, Label_floatLabel] else [])
                 @ [RegisterInputInteractionHandler FOCUS_EVENT (inputFocusHandler_' (fnd s)),
                    RegisterInputInteractionHandler BLUR_EVENT (inputBlurHandler_' (fnd s)),
                    RegisterInputInteractionHandler PRESSED_EVENT (setPointerXOffset_' (fnd s)),
                    RegisterTextFieldInteractionHandler ''click''
                      (textFieldInteractionHandler_' (fnd s)),
                    RegisterTextFieldInteractionHandler ''keydown''
                      (textFieldInteractionHandler_' (fnd s)),
                    RegisterTransitionEndHandler (transitionEndHandler_' (fnd s))]
         in init s = Inr ((), s\<lparr>world := w8, trace := trace s @ d\<rparr>)
            \<and> count_list d Label_floatLabel = (if prefilled then 1 else 0)"
  using assms by (simp add: init_def monad_defs call_defs Let_def)

text \<open>C7 at the recording adapter with a pre-filled and with an empty input, and at a
  pre-filled text field of the component.\<close>

theorem C7_init_floats_label_iff_prefilled_witness:
  "(\<exists>s'. init (newSpy ''abc'' False True) = Inr ((), s')
        \<and> world s' = [AddClass UPGRADED, Label_floatLabel,
             RegisterInputInteractionHandler FOCUS_EVENT InputFocusHandler,
             RegisterInputInteractionHandler BLUR_EVENT InputBlurHandler,
             RegisterInputInteractionHandler PRESSED_EVENT SetPointerXOffset,
             RegisterTextFieldInteractionHandler ''click'' TextFieldInteractionHandler,
             RegisterTextFieldInteractionHandler ''keydown'' TextFieldInteractionHandler,
             RegisterTransitionEndHandler TransitionEndHandler]
        \<and> count_list (trace s') Label_floatLabel = 1)
   \<and> (\<exists>s'. init (newSpy [] False True) = Inr ((), s')
        \<and> world s' = [AddClass UPGRADED,
             RegisterInputInteractionHandler FOCUS_EVENT InputFocusHandler,
             RegisterInputInteractionHandler BLUR_EVENT InputBlurHandler,
             RegisterInputInteractionHandler PRESSED_EVENT SetPointerXOffset,
             RegisterTextFieldInteractionHandler ''click'' TextFieldInteractionHandler,
             RegisterTextFieldInteractionHandler ''keydown'' TextFieldInteractionHandler,
             RegisterTransitionEndHandler TransitionEndHandler]
        \<and> count_list (trace s') Label_floatLabel = 0)
   \<and> (\<exists>s'. init (newTextfield prefilledField) = Inr ((), s')
        \<and> root_classList (world s') = [UPGRADED]
        \<and> input_listeners (world s') =
             [(FOCUS_EVENT, InputFocusHandler), (BLUR_EVENT, InputBlurHandler),
              (PRESSED_EVENT, SetPointerXOffset)]
        \<and> root_listeners (world s') =
             [(''click'', TextFieldInteractionHandler), (''keydown'', TextFieldInteractionHandler)]
        \<and> count_list (trace s') Label_floatLabel = 1)"
proof -
  have h1: "addClass (adapter_' (fnd (newTextfield prefilledField)))
              = Some (\<lambda>className w. w\<lparr>root_classList := attach className (root_classList w)\<rparr>)"
    by (simp add: adapter_defs newTextfield_def componentAdapter_def)
  have h2: "getInputFoundation (adapter_' (fnd (newTextfield prefilledField)))
              = Some (Some inputFoundation)"
    by (simp add: adapter_defs newTextfield_def componentAdapter_def)
  have h3: "getLabelFoundation (adapter_' (fnd (newTextfield prefilledField)))
              = Some (Some labelFoundation)"
    by (simp add: adapter_defs newTextfield_def componentAdapter_def)
  have h4: "registerInputInteractionHandler (adapter_' (fnd (newTextfield prefilledField)))
              = Some (\<lambda>evtType h. listen evtType h)"
    by (simp add: adapter_defs newTextfield_def componentAdapter_def)
  have h5: "registerTextFieldInteractionHandler (adapter_' (fnd (newTextfield prefilledField)))
              = Some (\<lambda>evtType h w.
                        w\<lparr>root_listeners := attach (evtType, h) (root_listeners w)\<rparr>)"
    by (simp add: adapter_defs newTextfield_def componentAdapter_def)
  have h6: "registerTransitionEndHandler (adapter_' (fnd (newTextfield prefilledField)))
              = Some (\<lambda>_ w. w)"
    by (simp add: adapter_defs newTextfield_def componentAdapter_def)
  show ?thesis
    using C7_init_floats_label_iff_prefilled[OF spy_caps(1) spy_caps(3) spy_caps(4) spy_caps(5)
      spy_caps(6) spy_caps(7), of "''abc''" False True]
    C7_init_floats_label_iff_prefilled[OF spy_caps(1) spy_caps(3) spy_caps(4) spy_caps(5)
      spy_caps(6) spy_caps(7), of "[]" False True]
      C7_init_floats_label_iff_prefilled[OF h1 h2 h3 h4 h5 h6]
    by (simp add: newSpy_def spyInput_def spyLabel_def constructor_def newTextfield_def
          inputFoundation_def labelFoundation_def listen_def attach_def sample_defs)
qed

text \<open>
  C8. On blur, \<^verbatim>\<open>deactivateFocus_\<close> returns; it removes the focused class from the host
  (once), then calls the label's \<^verbatim>\<open>deactivateFocus\<close> exactly once, with the argument
  that is true iff the input's value is empty and the input is not flagged as bad input;
  unless custom validity checking is on, it then runs the validity change with the input's
  native validity. The resulting host state and the calls are exactly these.
\<close>

theorem C8_blur_reports_hasValidInput:
  assumes "getInputFoundation (adapter_' (fnd s)) = Some (Some input)"
      and "getLabelFoundation (adapter_' (fnd s)) = Some (Some label)"
      and "removeClass (adapter_' (fnd s)) = Some remove"
      and "addClass (adapter_' (fnd s)) = Some add"
      and "helptextHasClass (adapter_' (fnd s)) = Some hasClass"
      and "setHelptextAttr (adapter_' (fnd s)) = Some setAttr"
      and "removeHelptextAttr (adapter_' (fnd s)) = Some removeAttr"
  shows "let w1 = remove FOCUSED (world s);
             hasValidInput = (input_getValue input w1 = [] \<and> \<not> input_isBadInput input w1);
             w2 = label_deactivateFocus label hasValidInput w1;
             isValid = input_checkValidity input w2;
             w3 = label_changeValidity label isValid w2;
             w4 = (if isValid then remove INVALID w3 else add INVALID w3);
             persistent = hasClass HELPTEXT_PERSISTENT w4;
             needsDisplay = (hasClass HELPTEXT_VALIDATION_MSG w4 \<and> \<not> isValid);
             w5 = (if needsDisplay then setAttr ROLE ''alert'' w4 else removeAttr ROLE w4);
             w6 = (if persistent \<or> needsDisplay then w5 else setAttr ARIA_HIDDEN ''true'' w5);
             custom = useCustomValidityChecking_' (fnd s);
             d = [GetInputFoundation, RemoveClass FOCUSED, GetLabelFoundation, Input_getValue]
                 @ (if input_getValue input w1 = [] then [Input_isBadInput] else [])
                 @ [Label_deactivateFocus hasValidInput]
                 @ (if custom then []
                    else [Input_checkValidity, GetLabelFoundation, Label_changeValidity isValid,
                          (if isValid then RemoveClass INVALID else AddClass INVALID),
                          HelptextHasClass HELPTEXT_PERSISTENT,
                          HelptextHasClass HELPTEXT_VALIDATION_MSG,
                          (if needsDisplay then SetHelptextAttr ROLE ''alert''
                           else RemoveHelptextAttr ROLE)]
                         @ (if persistent \<or> needsDisplay then []
                            else [SetHelptextAttr ARIA_HIDDEN ''true'']))
         in deactivateFocus_' s
              = Inr ((), s\<lparr>world := (if custom then w2 else w6), trace := trace s @ d\<rparr>)
            \<and> count_list d (RemoveClass FOCUSED) = 1
            \<and> filter isLabelDeactivateFocus d = [Label_deactivateFocus hasValidInput]"
  using assms
  by (simp add: deactivateFocus_'_def changeValidity_'_def updateHelptext_'_def hideHelptext_'_def
        monad_defs call_defs Let_def isLabelDeactivateFocus_def)

text \<open>C8 at the recording adapter (empty valid input; non-empty invalid input; empty input
  flagged as bad input) and at a focused, empty text field of the component, whose root
  element loses the focused class.\<close>

theorem C8_blur_reports_hasValidInput_witness:
  "(\<exists>s'. deactivateFocus_' (newSpy [] False True) = Inr ((), s')
        \<and> world s' = [RemoveClass FOCUSED, Label_deactivateFocus True, Label_changeValidity True,
                       RemoveClass INVALID, RemoveHelptextAttr ROLE,
                       SetHelptextAttr ARIA_HIDDEN ''true''])
   \<and> (\<exists>s'. deactivateFocus_' (newSpy ''abc'' False False) = Inr ((), s')
        \<and> world s' = [RemoveClass FOCUSED, Label_deactivateFocus False,
                       Label_changeValidity False, AddClass INVALID, RemoveHelptextAttr ROLE,
                       SetHelptextAttr ARIA_HIDDEN ''true''])
   \<and> (\<exists>s'. deactivateFocus_' (newSpy [] True True) = Inr ((), s')
        \<and> filter isLabelDeactivateFocus (world s') = [Label_deactivateFocus False])
   \<and> (\<exists>s'. deactivateFocus_' (newTextfield (emptyField\<lparr>root_classList := [FOCUSED]\<rparr>))
             = Inr ((), s')
        \<and> root_classList (world s') = []
        \<and> filter isLabelDeactivateFocus (trace s') = [Label_deactivateFocus True])"
proof -
  let ?s = "newTextfield (emptyField\<lparr>root_classList := [FOCUSED]\<rparr>)"
  have h1: "getInputFoundation (adapter_' (fnd ?s)) = Some (Some inputFoundation)"
    by (simp add: adapter_defs newTextfield_def componentAdapter_def)
  have h2: "getLabelFoundation (adapter_' (fnd ?s)) = Some (Some labelFoundation)"
    by (simp add: adapter_defs newTextfield_def componentAdapter_def)
  have h3: "removeClass (adapter_' (fnd ?s))
              = Some (\<lambda>className w. w\<lparr>root_classList := removeAll className (root_classList w)\<rparr>)"
    by (simp add: adapter_defs newTextfield_def componentAdapter_def)
  have h4: "addClass (adapter_' (fnd ?s))
              = Some (\<lambda>className w. w\<lparr>root_classList := attach className (root_classList w)\<rparr>)"
    by (simp add: adapter_defs newTextfield_def componentAdapter_def)
  have h5: "helptextHasClass (adapter_' (fnd ?s)) = Some (\<lambda>_ _. False)"
    by (simp add: adapter_defs newTextfield_def componentAdapter_def)
  have h6: "setHelptextAttr (adapter_' (fnd ?s)) = Some (\<lambda>_ _ w. w)"
    by (simp add: adapter_defs newTextfield_def componentAdapter_def)
  have h7: "removeHelptextAttr (adapter_' (fnd ?s)) = Some (\<lambda>_ w. w)"
    by (simp add: adapter_defs newTextfield_def componentAdapter_def)
  show ?thesis
    using C8_blur_reports_hasValidInput[OF spy_caps(3) spy_caps(4) spy_caps(2) spy_caps(1)
      spy_caps(8) spy_caps(9) spy_caps(10), of "[]" False True]
    C8_blur_reports_hasValidInput[OF spy_caps(3) spy_caps(4) spy_caps(2) spy_caps(1)
      spy_caps(8) spy_caps(9) spy_caps(10), of "''abc''" False False]
    C8_blur_reports_hasValidInput[OF spy_caps(3) spy_caps(4) spy_caps(2) spy_caps(1)
      spy_caps(8) spy_caps(9) spy_caps(10), of "[]" True True]
      C8_blur_reports_hasValidInput[OF h1 h2 h3 h4 h5 h6 h7]
    by (simp add: newSpy_def spyInput_def spyLabel_def constructor_def isLabelDeactivateFocus_def
          newTextfield_def inputFoundation_def labelFoundation_def attach_def sample_defs)
qed



text \<open>
  C10. A foundation constructed without an adapter argument has only the default adapter,
  and its \<^verbatim>\<open>init()\<close> raises: the default adapter has neither
  \<^verbatim>\<open>registerInputInteractionHandler\<close> nor \<^verbatim>\<open>deregisterInputInteractionHandler\<close>, its
  \<^verbatim>\<open>getInputFoundation\<close> returns \<^verbatim>\<open>undefined\<close>, so \<^verbatim>\<open>init()\<close> ends in a
  \<open>TypeError\<close> whatever the host state, and so does a call of either registration
  method.
\<close>

theorem C10_default_adapter_init_raises:
  "registerInputInteractionHandler (defaultAdapter :: 'w adapter) = None
   \<and> deregisterInputInteractionHandler (defaultAdapter :: 'w adapter) = None
   \<and> getInputFoundation (defaultAdapter :: 'w adapter) = Some None
   \<and> init \<lparr>fnd = constructor None, world = (w :: 'w), trace = tr\<rparr> = Inl TypeError
   \<and> callRegisterInputInteractionHandler e h
         \<lparr>fnd = constructor None, world = w, trace = tr\<rparr> = Inl TypeError
   \<and> callDeregisterInputInteractionHandler e h
         \<lparr>fnd = constructor None, world = w, trace = tr\<rparr> = Inl TypeError"
  by (simp add: init_def monad_defs call_defs adapter_defs)

subsection \<open>Further properties\<close>

text \<open>
  After any sequence of operations on a newly constructed foundation that returns,
  \<^verbatim>\<open>isFocused_\<close> is still \<^verbatim>\<open>undefined\<close>, and \<^verbatim>\<open>transitionEnd_\<close> for the property
  \<^verbatim>\<open>opacity\<close> returns after removing the bottom line's active class, whether or not
  the field is focused.
\<close>

theorem transitionEnd_ignores_focus:
  assumes "performAll ops \<lparr>fnd = constructor arg, world = w, trace = tr\<rparr> = Inr ((), s)"
      and "evt_propertyName evt = Some ''opacity''"
  shows "isFocused_' (fnd s) = None
     \<and> (\<exists>remove. removeClassFromBottomLine (adapter_' (fnd s)) = Some remove
          \<and> transitionEnd_' evt s
            = Inr ((), s\<lparr>world := remove BOTTOM_LINE_ACTIVE (world s),
                          trace := trace s @ [RemoveClassFromBottomLine BOTTOM_LINE_ACTIVE]\<rparr>))"
proof -
  let ?s0 = "\<lparr>fnd = constructor arg, world = w, trace = tr\<rparr>"
  have i0: "isFocused_' (fnd ?s0) = None"
    by (simp add: constructor_def)
  have f: "isFocused_' (fnd s) = None"
    using keeps_performAll[OF stable_isFocused, of ops] i0 assms(1)
    unfolding keeps_def by blast
  have st: "stable (\<lambda>t. adapter_' t = adapter_' (constructor arg))"
    by (simp add: stable_def)
  have a0: "adapter_' (fnd ?s0) = adapter_' (constructor arg)"
    by simp
  have a: "adapter_' (fnd s) = adapter_' (constructor arg)"
    using keeps_performAll[OF st, of ops] a0 assms(1)
    unfolding keeps_def by blast
  obtain remove where r: "removeClassFromBottomLine (adapter_' (fnd s)) = Some remove"
    unfolding a by (cases arg; cases "removeClassFromBottomLine (the arg)")
      (simp_all add: adapter_defs)
  with f assms(2) show ?thesis
    by (simp add: transitionEnd_'_def truthy_def monad_defs call_defs)
qed

text \<open>The same after \<^verbatim>\<open>init()\<close> and a focus event on the component.\<close>

theorem transitionEnd_ignores_focus_witness:
  "\<exists>s. performAll [Init, Fire InputFocusHandler (plainEvent ''focus'' inputTarget)]
          (newTextfield emptyField) = Inr ((), s)
      \<and> FOCUSED \<in> set (root_classList (world s))
      \<and> transitionEnd_' opacityEnd s
          = Inr ((), s\<lparr>trace := trace s @ [RemoveClassFromBottomLine BOTTOM_LINE_ACTIVE]\<rparr>)"
proof -
  define s where "s = (newTextfield emptyField) \<lparr>
       world := emptyField\<lparr>root_classList := [UPGRADED, FOCUSED],
         root_listeners := [(''click'', TextFieldInteractionHandler),
                            (''keydown'', TextFieldInteractionHandler)],
         input_listeners :=
           [(FOCUS_EVENT, InputFocusHandler), (BLUR_EVENT, InputBlurHandler),
            (PRESSED_EVENT, SetPointerXOffset)]\<rparr>,
       trace := [AddClass UPGRADED, GetInputFoundation, Input_getValue,
           RegisterInputInteractionHandler FOCUS_EVENT InputFocusHandler,
           RegisterInputInteractionHandler BLUR_EVENT InputBlurHandler,
           RegisterInputInteractionHandler PRESSED_EVENT SetPointerXOffset,
           RegisterTextFieldInteractionHandler ''click'' TextFieldInteractionHandler,
           RegisterTextFieldInteractionHandler ''keydown'' TextFieldInteractionHandler,
           RegisterTransitionEndHandler TransitionEndHandler,
           AddClass FOCUSED, AddClassToBottomLine BOTTOM_LINE_ACTIVE, GetLabelFoundation,
           Label_floatLabel, RemoveHelptextAttr ARIA_HIDDEN] \<rparr>"
  have p: "performAll [Init, Fire InputFocusHandler (plainEvent ''focus'' inputTarget)]
          \<lparr>fnd = constructor (Some componentAdapter), world = emptyField, trace = []\<rparr>
          = Inr ((), s)"
    by (simp add: s_def init_def activateFocus_'_def showHelptext_'_def
        monad_defs call_defs adapter_defs component_defs sample_defs)
  have o: "evt_propertyName opacityEnd = Some ''opacity''"
    by (simp add: sample_defs)
  have w: "FOCUSED \<in> set (root_classList (world s))"
    by (simp add: s_def)
  have d: "removeClassFromBottomLine (adapter_' (fnd s)) = Some (\<lambda>_ w. w)"
    by (simp add: s_def adapter_defs component_defs)
  from transitionEnd_ignores_focus[OF p o] d
  have "transitionEnd_' opacityEnd s
          = Inr ((), s\<lparr>trace := trace s @ [RemoveClassFromBottomLine BOTTOM_LINE_ACTIVE]\<rparr>)"
    by auto
  with p w show ?thesis
    by (auto simp: newTextfield_def)
qed

text \<open>
  \<^verbatim>\<open>transitionEnd_\<close> for any other property (or for an event without a property name)
  does nothing.
\<close>

theorem transitionEnd_other_property:
  assumes "evt_propertyName evt \<noteq> Some ''opacity''"
  shows "transitionEnd_' evt s = Inr ((), s)"
  using assms by (simp add: transitionEnd_'_def monad_defs)

text \<open>The same for the end of a \<^verbatim>\<open>transform\<close> transition.\<close>

theorem transitionEnd_other_property_witness:
  "transitionEnd_' (opacityEnd\<lparr>evt_propertyName := Some ''transform''\<rparr>) (newTextfield emptyField)
     = Inr ((), newTextfield emptyField)"
proof -
  have h: "evt_propertyName (opacityEnd\<lparr>evt_propertyName := Some ''transform''\<rparr>)
             \<noteq> Some ''opacity''"
    by simp
  show ?thesis
    by (rule transitionEnd_other_property[OF h])
qed

text \<open>
  \<^verbatim>\<open>destroy()\<close>, over an adapter that has the methods it calls, returns after removing
  the upgraded class and deregistering, for the same event types as \<^verbatim>\<open>init()\<close> registers
  them, the handler values stored in the foundation object.
\<close>

theorem destroy_deregisters_stored_handlers:
  assumes "removeClass (adapter_' (fnd s)) = Some remove"
      and "deregisterInputInteractionHandler (adapter_' (fnd s)) = Some deregInput"
      and "deregisterTextFieldInteractionHandler (adapter_' (fnd s)) = Some deregRoot"
      and "deregisterTransitionEndHandler (adapter_' (fnd s)) = Some deregEnd"
  shows "\<exists>s'. destroy s = Inr ((), s')
           \<and> fnd s' = fnd s
           \<and> trace s' = trace s @
               [RemoveClass UPGRADED,
                DeregisterInputInteractionHandler FOCUS_EVENT (inputFocusHandler_' (fnd s)),
                DeregisterInputInteractionHandler BLUR_EVENT (inputBlurHandler_' (fnd s)),
                DeregisterInputInteractionHandler PRESSED_EVENT (setPointerXOffset_' (fnd s)),
                DeregisterTextFieldInteractionHandler ''click''
                  (textFieldInteractionHandler_' (fnd s)),
                DeregisterTextFieldInteractionHandler ''keydown''
                  (textFieldInteractionHandler_' (fnd s)),
                DeregisterTransitionEndHandler (transitionEndHandler_' (fnd s))]"
  using assms by (simp add: destroy_def monad_defs call_defs)

text \<open>The same on the component, whose root element then has no listener left.\<close>

theorem destroy_deregisters_stored_handlers_witness:
  "\<exists>s'. destroy (newTextfield (emptyField\<lparr>root_listeners :=
             [(''click'', TextFieldInteractionHandler),
              (''keydown'', TextFieldInteractionHandler)]\<rparr>)) = Inr ((), s')
        \<and> root_listeners (world s') = []
        \<and> trace s' =
             [RemoveClass UPGRADED,
              DeregisterInputInteractionHandler FOCUS_EVENT InputFocusHandler,
              DeregisterInputInteractionHandler BLUR_EVENT InputBlurHandler,
              DeregisterInputInteractionHandler PRESSED_EVENT SetPointerXOffset,
              DeregisterTextFieldInteractionHandler ''click'' TextFieldInteractionHandler,
              DeregisterTextFieldInteractionHandler ''keydown'' TextFieldInteractionHandler,
              DeregisterTransitionEndHandler TransitionEndHandler]"
proof -
  let ?s = "newTextfield (emptyField\<lparr>root_listeners :=
             [(''click'', TextFieldInteractionHandler),
              (''keydown'', TextFieldInteractionHandler)]\<rparr>)"
  have h1: "removeClass (adapter_' (fnd ?s))
              = Some (\<lambda>className w. w\<lparr>root_classList := removeAll className (root_classList w)\<rparr>)"
    by (simp add: adapter_defs newTextfield_def componentAdapter_def)
  have h2: "deregisterInputInteractionHandler (adapter_' (fnd ?s))
              = Some (\<lambda>evtType h. listen evtType h)"
    by (simp add: adapter_defs newTextfield_def componentAdapter_def)
  have h3: "deregisterTextFieldInteractionHandler (adapter_' (fnd ?s))
              = Some (\<lambda>evtType h w.
                        w\<lparr>root_listeners := removeAll (evtType, h) (root_listeners w)\<rparr>)"
    by (simp add: adapter_defs newTextfield_def componentAdapter_def)
  have h4: "deregisterTransitionEndHandler (adapter_' (fnd ?s)) = Some (\<lambda>_ w. w)"
    by (simp add: adapter_defs newTextfield_def componentAdapter_def)
  have r: "\<exists>s'. destroy ?s = Inr ((), s') \<and> root_listeners (world s') = []"
    by (simp add: destroy_def monad_defs call_defs adapter_defs component_defs sample_defs)
  show ?thesis
    using destroy_deregisters_stored_handlers[OF h1 h2 h3 h4] r
    by (auto simp: newTextfield_def constructor_def)
qed

text \<open>
  When the property \<^verbatim>\<open>disabled\<close> of the input foundation reads as true,
  \<^verbatim>\<open>handleTextFieldInteraction_\<close> does nothing: the foundation object and the host are
  unchanged and the only call made is the accessor \<^verbatim>\<open>getInputFoundation()\<close>.
\<close>

theorem interaction_guard_on_disabled_property:
  assumes "getInputFoundation (adapter_' (fnd s)) = Some (Some input)"
      and "truthy (input_disabled input (world s))"
  shows "handleTextFieldInteraction_' evt s
           = Inr ((), s\<lparr>trace := trace s @ [GetInputFoundation]\<rparr>)"
  using assms by (simp add: handleTextFieldInteraction_'_def monad_defs)

text \<open>The same at a click on the icon of a text field whose input foundation has the
  property set.\<close>

theorem interaction_guard_on_disabled_property_witness:
  "handleTextFieldInteraction_' (plainEvent ''click'' iconTarget) (newTextfield disabledField)
     = Inr ((), (newTextfield disabledField)\<lparr>trace := [GetInputFoundation]\<rparr>)"
proof -
  have h1: "getInputFoundation (adapter_' (fnd (newTextfield disabledField)))
              = Some (Some inputFoundation)"
    by (simp add: adapter_defs newTextfield_def componentAdapter_def)
  have h2: "truthy (input_disabled inputFoundation (world (newTextfield disabledField)))"
    by (simp add: truthy_def newTextfield_def inputFoundation_def sample_defs)
  show ?thesis
    using interaction_guard_on_disabled_property[OF h1 h2, of "plainEvent ''click'' iconTarget"]
    by (simp add: newTextfield_def)
qed

text \<open>
  On the component, whenever the input foundation has no property \<^verbatim>\<open>disabled\<close>:
  after \<^verbatim>\<open>setDisabled(true)\<close> the input's \<^verbatim>\<open>isDisabled()\<close> is true, and a click on
  the icon still sets \<^verbatim>\<open>receivedUserInput_\<close> and emits the icon event.
\<close>

theorem disabled_by_setDisabled_still_interacts:
  assumes "isTextfield s" and "input_disabledProperty (world s) = None"
  shows "\<exists>s1 s2. setDisabled True s = Inr ((), s1)
      \<and> input_isDisabled inputFoundation (world s1)
      \<and> handleTextFieldInteraction_' (plainEvent ''click'' iconTarget) s1 = Inr ((), s2)
      \<and> receivedUserInput_' (fnd s2) = Some True
      \<and> emitted (world s2) = emitted (world s) @ [ICON_EVENT]"
  using assms
  by (cases "icon_attributes (world s)")
     (simp_all add: isTextfield_def setDisabled_def handleTextFieldInteraction_'_def truthy_def
        monad_defs call_defs adapter_defs component_defs sample_defs)

text \<open>The same at a pre-filled text field.\<close>

theorem disabled_by_setDisabled_still_interacts_witness:
  "\<exists>s1 s2. setDisabled True (newTextfield prefilledField) = Inr ((), s1)
      \<and> input_isDisabledState (world s1)
      \<and> handleTextFieldInteraction_' (plainEvent ''click'' iconTarget) s1 = Inr ((), s2)
      \<and> receivedUserInput_' (fnd s2) = Some True
      \<and> emitted (world s2) = [ICON_EVENT]"
proof -
  have h: "input_disabledProperty (world (newTextfield prefilledField)) = None"
    by (simp add: newTextfield_def sample_defs)
  show ?thesis
    using disabled_by_setDisabled_still_interacts[OF isTextfield_new h]
    by (simp add: newTextfield_def inputFoundation_def sample_defs)
qed

text \<open>On the component, the root element does not carry the focused class after a blur.\<close>

theorem blur_removes_focused_class:
  assumes "isTextfield s"
  shows "\<exists>s'. deactivateFocus_' s = Inr ((), s')
      \<and> FOCUSED \<notin> set (root_classList (world s'))"
  using assms
  by (simp add: isTextfield_def deactivateFocus_'_def changeValidity_'_def updateHelptext_'_def
        hideHelptext_'_def monad_defs call_defs adapter_defs component_defs)

text \<open>The same at a focused text field.\<close>

theorem blur_removes_focused_class_witness:
  "\<exists>s'. deactivateFocus_' (newTextfield (prefilledField\<lparr>root_classList := [FOCUSED]\<rparr>))
          = Inr ((), s')
      \<and> FOCUSED \<notin> set (root_classList (world s'))"
  by (rule blur_removes_focused_class[OF isTextfield_new])

end
